theory Spec2Isabelle
  imports Complex_Main "HOL-Library.Word"
begin

section \<open>InfiniDrive: chunked storage and reassembly\<close>

text \<open>
  A shallow embedding of the backend routes \<^verbatim>\<open>routes/files.ts\<close>, the public API route
  \<^verbatim>\<open>routes/v1.ts\<close> (upload loop) and the Telegram service. JavaScript numbers are
  modelled as mathematical integers (\<^typ>\<open>int\<close>), which is exact for the integral values
  of magnitude below \<open>2^53\<close> that sizes, offsets and indices take; byte buffers
  (\<^verbatim>\<open>Uint8Array\<close>, \<^verbatim>\<open>ArrayBuffer\<close>) are lists of 8-bit words.
\<close>

subsection \<open>Typed arrays\<close>

type_synonym byte = "8 word"
type_synonym bytes = "byte list"

text \<open>
  \<^verbatim>\<open>TypedArray.prototype.slice(start, end)\<close>: a negative argument counts from the end,
  both are clamped to the length, and an empty result is returned when the final index
  does not exceed the first.
\<close>

definition u8_slice :: "'a list \<Rightarrow> int \<Rightarrow> int \<Rightarrow> 'a list" where
  "u8_slice xs start end =
     (let len = int (length xs);
          k = (if start < 0 then max (len + start) 0 else min start len);
          final = (if end < 0 then max (len + end) 0 else min end len)
      in take (nat (final - k)) (drop (nat k) xs))"

text \<open>
  \<^verbatim>\<open>target.set(source, offset)\<close> raises a RangeError (\<open>None\<close>) when the source does not
  fit at the offset.
\<close>

definition u8_set :: "'a list \<Rightarrow> 'a list \<Rightarrow> nat \<Rightarrow> 'a list option" where
  "u8_set target source offset =
     (if offset + length source > length target then None
      else Some (take offset target @ source @ drop (offset + length source) target))"

text \<open>
  The reassembly loop shared by the download and stream handlers:
  \<^verbatim>\<open>
  const totalLength = chunkBuffers.reduce((sum, buf) => sum + buf.byteLength, 0);
  const combined = new Uint8Array(totalLength);
  let offset = 0;
  for (const buf of chunkBuffers) {
    combined.set(new Uint8Array(buf), offset);
    offset += buf.byteLength;
  }
  \<close>
\<close>

fun set_loop :: "bytes \<Rightarrow> nat \<Rightarrow> bytes list \<Rightarrow> bytes option" where
  "set_loop combined offset [] = Some combined"
| "set_loop combined offset (buf # bufs) =
     (case u8_set combined buf offset of
        None \<Rightarrow> None
      | Some combined' \<Rightarrow> set_loop combined' (offset + length buf) bufs)"

definition combine :: "bytes list \<Rightarrow> bytes option" where
  "combine chunkBuffers =
     (let totalLength = fold (\<lambda>buf sum. sum + length buf) chunkBuffers 0
      in set_loop (replicate totalLength 0) 0 chunkBuffers)"

subsection \<open>Splitting a payload into chunks\<close>

text \<open>\<^verbatim>\<open>Math.ceil(a / b)\<close> on integers, for a positive divisor.\<close>

definition ceil_div :: "int \<Rightarrow> int \<Rightarrow> int" where
  "ceil_div a b = - ((- a) div b)"

definition CHUNK_SIZE :: int where
  "CHUNK_SIZE = 20 * 1024 * 1024"

text \<open>
  The split loop of the single-request upload (and of the web client):
  \<^verbatim>\<open>
  for (let i = 0; i < chunk_count; i++) {
    const start = i * CHUNK_SIZE;
    const end = Math.min(start + CHUNK_SIZE, file_size);
    const chunkBuffer = buffer.slice(start, end);
    ... INSERT (chunk_index = i, chunk_size = chunkBuffer.length) ...
  }
  \<close>
  The loop is parameterised by the chunk size; it yields the chunk index and the bytes of
  every chunk it stores.
\<close>

function split_loop :: "bytes \<Rightarrow> int \<Rightarrow> int \<Rightarrow> int \<Rightarrow> (int \<times> bytes) list" where
  "split_loop buffer chunk_size chunk_count i =
     (if i < chunk_count then
        (let start = i * chunk_size;
             end = min (start + chunk_size) (int (length buffer));
             chunkBuffer = u8_slice buffer start end
         in (i, chunkBuffer) # split_loop buffer chunk_size chunk_count (i + 1))
      else [])"
  by pat_completeness auto
termination
  by (relation "measure (\<lambda>(buffer, chunk_size, chunk_count, i). nat (chunk_count - i))") auto

declare split_loop.simps [simp del]

definition split_chunks :: "bytes \<Rightarrow> int \<Rightarrow> (int \<times> bytes) list" where
  "split_chunks buffer chunk_size =
     split_loop buffer chunk_size (ceil_div (int (length buffer)) chunk_size) 0"

text \<open>
  Reading back: the chunk records are ordered by \<^verbatim>\<open>chunk_index ASC\<close> and their bytes
  are combined.
\<close>

definition reassemble :: "(int \<times> bytes) list \<Rightarrow> bytes option" where
  "reassemble records = combine (map snd (sort_key fst records))"


subsection \<open>Strings and numbers\<close>

text \<open>\<^verbatim>\<open>String.prototype.startsWith\<close> and \<^verbatim>\<open>String.prototype.includes\<close>.\<close>

definition startsWith :: "string \<Rightarrow> string \<Rightarrow> bool" where
  "startsWith s t = (take (length t) s = t)"

fun str_includes :: "string \<Rightarrow> string \<Rightarrow> bool" where
  "str_includes [] t = (t = [])"
| "str_includes (c # s) t = (startsWith (c # s) t \<or> str_includes s t)"

text \<open>\<^verbatim>\<open>String.prototype.trim\<close> on the ASCII white space characters.\<close>

definition is_space :: "char \<Rightarrow> bool" where
  "is_space c = (c \<in> {CHR '' '', CHR 0x09, CHR 0x0A, CHR 0x0B, CHR 0x0C, CHR 0x0D})"

definition trim :: "string \<Rightarrow> string" where
  "trim s = rev (dropWhile is_space (rev (dropWhile is_space s)))"

text \<open>
  A JavaScript value used as a condition: an absent (\<^verbatim>\<open>undefined\<close>, \<^verbatim>\<open>null\<close>) or empty
  string is falsy, and so is an absent number or the number zero.
\<close>

definition truthy_str :: "string option \<Rightarrow> bool" where
  "truthy_str v = (case v of None \<Rightarrow> False | Some s \<Rightarrow> s \<noteq> [])"

definition truthy_num :: "int option \<Rightarrow> bool" where
  "truthy_num v = (case v of None \<Rightarrow> False | Some n \<Rightarrow> n \<noteq> 0)"

text \<open>The value of \<^verbatim>\<open>a || b\<close> on optional strings.\<close>

definition or_str :: "string option \<Rightarrow> string option \<Rightarrow> string option" where
  "or_str a b = (if truthy_str a then a else b)"

text \<open>Decimal digits: the class \<^verbatim>\<open>\d\<close> and \<^verbatim>\<open>parseInt\<close> on a string of digits.\<close>

definition is_digit :: "char \<Rightarrow> bool" where
  "is_digit c = (c \<in> set ''0123456789'')"

definition digit_val :: "char \<Rightarrow> int" where
  "digit_val c = int (of_char c) - 48"

definition parseInt :: "string \<Rightarrow> int" where
  "parseInt ds = foldl (\<lambda>acc c. 10 * acc + digit_val c) 0 ds"

text \<open>The decimal rendering of an integer, as a template literal prints a number.\<close>

definition digit_char :: "nat \<Rightarrow> char" where
  "digit_char d = ''0123456789'' ! d"

function digits_of :: "nat \<Rightarrow> string" where
  "digits_of n = (if n < 10 then [digit_char n] else digits_of (n div 10) @ [digit_char (n mod 10)])"
  by pat_completeness auto
termination
  by (relation "measure id") auto

declare digits_of.simps [simp del]

definition toString :: "int \<Rightarrow> string" where
  "toString i = (if i < 0 then ''-'' @ digits_of (nat (- i)) else digits_of (nat i))"

text \<open>
  The remainder operator \<^verbatim>\<open>%\<close> on integers takes the sign of the dividend; a zero
  result of a negative dividend is \<^verbatim>\<open>-0\<close>, which indexes an array like \<^verbatim>\<open>0\<close>.
\<close>

definition js_rem :: "int \<Rightarrow> int \<Rightarrow> int" where
  "js_rem a b = (if a < 0 then - ((- a) mod \<bar>b\<bar>) else a mod \<bar>b\<bar>)"

text \<open>Reading an array element: \<^verbatim>\<open>undefined\<close> outside the array.\<close>

definition array_get :: "'a list \<Rightarrow> int \<Rightarrow> 'a option" where
  "array_get xs i = (if 0 \<le> i \<and> i < int (length xs) then Some (xs ! nat i) else None)"

subsection \<open>Responses\<close>

datatype json = JNull | JBool bool | JNum int | JStr string | JArr "json list"
  | JObj "(string \<times> json) list"

text \<open>
  A response is either \<^verbatim>\<open>c.json(body, status)\<close> or a binary \<^verbatim>\<open>new Response(buffer,
  {status, headers})\<close>.
\<close>

datatype response =
    Json int "(string \<times> json) list"
  | Binary int "(string \<times> string) list" bytes

definition json_opt :: "string option \<Rightarrow> json" where
  "json_opt v = (case v of None \<Rightarrow> JNull | Some s \<Rightarrow> JStr s)"

fun status_of :: "response \<Rightarrow> int" where
  "status_of (Json st body) = st"
| "status_of (Binary st hs body) = st"


fun body_of :: "response \<Rightarrow> bytes option" where
  "body_of (Json st body) = None"
| "body_of (Binary st hs body) = Some body"

fun json_field :: "response \<Rightarrow> string \<Rightarrow> json option" where
  "json_field (Json st body) name = map_of body name"
| "json_field (Binary st hs body) name = None"

subsection \<open>The Telegram service\<close>

record TelegramUser =
  tu_id :: int
  tu_is_bot :: bool
  tu_first_name :: string
  tu_username :: "string option"

record TelegramFile =
  tf_file_id :: string
  tf_file_unique_id :: string
  tf_file_size :: "int option"
  tf_file_path :: "string option"

record TelegramDocument =
  doc_file_id :: string
  doc_file_unique_id :: string

record TelegramMessage =
  message_id :: int
  document :: "TelegramDocument option"

record http_response =
  http_ok :: bool
  http_status :: int
  http_statusText :: string
  http_text :: "string option"
  http_arrayBuffer :: bytes

text \<open>
  The remote side. Each field is \<^verbatim>\<open>telegramRequest\<close> at one Bot API method (the error
  is the message of the exception it throws), and \<open>fetch_url\<close> is the plain \<^verbatim>\<open>fetch\<close> of
  a file URL (its error is a rejected promise). \<^verbatim>\<open>telegramRequest\<close> first awaits
  \<^verbatim>\<open>rateLimit\<close>, which delays the call and has no other effect on its result.
\<close>

record telegram =
  req_getMe :: "string \<Rightarrow> string + TelegramUser"
  req_getFile :: "string \<Rightarrow> string \<Rightarrow> string + TelegramFile"
  req_getChat :: "string \<Rightarrow> string \<Rightarrow> string + unit"
  req_forwardMessage :: "string \<Rightarrow> string \<Rightarrow> string \<Rightarrow> int \<Rightarrow> string + TelegramMessage"
  req_sendDocument :: "string \<Rightarrow> string \<Rightarrow> bytes \<Rightarrow> string \<Rightarrow> string + TelegramMessage"
  fetch_url :: "string \<Rightarrow> string + http_response"

definition validateBotToken :: "telegram \<Rightarrow> string \<Rightarrow> string + TelegramUser" where
  "validateBotToken tg token =
     (case (case req_getMe tg token of
              Inl e \<Rightarrow> Inl e
            | Inr user \<Rightarrow>
                if tu_is_bot user then Inr user else Inl ''Token does not belong to a bot'')
      of Inl msg \<Rightarrow> Inl (''Invalid bot token: '' @ msg)
       | Inr user \<Rightarrow> Inr user)"

definition getBotInfo :: "telegram \<Rightarrow> string \<Rightarrow> string + (int \<times> string \<times> string)" where
  "getBotInfo tg botToken =
     (case validateBotToken tg botToken of
        Inl e \<Rightarrow> Inl e
      | Inr user \<Rightarrow>
          Inr (tu_id user,
               (case tu_username user of None \<Rightarrow> [] | Some u \<Rightarrow> u),
               tu_first_name user))"

definition sendDocument ::
  "telegram \<Rightarrow> string \<Rightarrow> string \<Rightarrow> bytes \<Rightarrow> string \<Rightarrow> string + (int \<times> string)" where
  "sendDocument tg botToken channelId fileBuffer fileName =
     (case req_sendDocument tg botToken channelId fileBuffer fileName of
        Inl e \<Rightarrow> Inl e
      | Inr message \<Rightarrow>
          (case document message of
             None \<Rightarrow> Inl ''No document in Telegram response''
           | Some d \<Rightarrow> Inr (message_id message, doc_file_id d)))"

definition getFile :: "telegram \<Rightarrow> string \<Rightarrow> string \<Rightarrow> string + TelegramFile" where
  "getFile tg botToken fileId = req_getFile tg botToken fileId"

text \<open>
  \<^verbatim>\<open>getFileFromMessage\<close>: the fallback that forwards the stored message to obtain a fresh
  file reference; every failure yields \<^verbatim>\<open>null\<close>.
\<close>

definition getFileFromMessage ::
  "telegram \<Rightarrow> string \<Rightarrow> string \<Rightarrow> int \<Rightarrow> TelegramFile option" where
  "getFileFromMessage tg botToken channelId messageId =
     (case req_getChat tg botToken channelId of
        Inl e \<Rightarrow> None
      | Inr message \<Rightarrow>
          (case req_forwardMessage tg botToken channelId channelId messageId of
             Inl e \<Rightarrow> None
           | Inr forwarded \<Rightarrow>
               (case document forwarded of
                  Some d \<Rightarrow>
                    (case getFile tg botToken (doc_file_id d) of
                       Inl e \<Rightarrow> None
                     | Inr f \<Rightarrow> Some f)
                | None \<Rightarrow> None)))"

definition getFileUrl :: "string \<Rightarrow> string \<Rightarrow> string" where
  "getFileUrl botToken filePath =
     ''https://api.telegram.org/file/bot'' @ botToken @ ''/'' @ filePath"

text \<open>\<^verbatim>\<open>downloadFile\<close>: the body of the \<^verbatim>\<open>try\<close> block, then the \<^verbatim>\<open>catch\<close> that rewrites the error.\<close>

definition downloadFile_try :: "telegram \<Rightarrow> string \<Rightarrow> string \<Rightarrow> string + bytes" where
  "downloadFile_try tg botToken fileId =
     (case getFile tg botToken fileId of
        Inl e \<Rightarrow> Inl e
      | Inr file \<Rightarrow>
          (case tf_file_path file of
             None \<Rightarrow> Inl ''File path not available from Telegram''
           | Some path \<Rightarrow>
               if path = [] then Inl ''File path not available from Telegram''
               else
                 (case fetch_url tg (getFileUrl botToken path) of
                    Inl e \<Rightarrow> Inl e
                  | Inr response \<Rightarrow>
                      if \<not> http_ok response then
                        (let errorText = (case http_text response of
                                            None \<Rightarrow> ''Unknown error'' | Some t \<Rightarrow> t)
                         in Inl (''Failed to download file from Telegram: ''
                                 @ toString (http_status response) @ '' ''
                                 @ http_statusText response @ '' - '' @ errorText))
                      else Inr (http_arrayBuffer response))))"

definition downloadFile :: "telegram \<Rightarrow> string \<Rightarrow> string \<Rightarrow> string + bytes" where
  "downloadFile tg botToken fileId =
     (case downloadFile_try tg botToken fileId of
        Inr arrayBuffer \<Rightarrow> Inr arrayBuffer
      | Inl message \<Rightarrow>
          if str_includes message ''Telegram API error'' then
            (if str_includes message ''404'' \<or> str_includes message ''file not found''
                \<or> str_includes message ''Bad Request'' \<or> str_includes message ''400''
             then Inl (''Telegram file not found. The file may have been deleted or the file_id is invalid. File ID: ''
                       @ take 20 fileId @ ''...'')
             else Inl message)
          else Inl (''Failed to download file: '' @ message))"

subsection \<open>The database\<close>

text \<open>
  The tables of \<^verbatim>\<open>schema.sql\<close> that the file routes read and write, each a list of rows
  in insertion order. Nullable columns are options; the SQLite booleans are integers.
\<close>

record bot_row =
  bot_id :: string
  bot_user_id :: string
  bot_token_enc :: string
  bot_channel_id :: "string option"
  is_active :: int
  last_health_check :: "int option"
  health_status :: "string option"

record folder_row =
  fo_folder_id :: string
  fo_user_id :: string
  folder_path :: string

record file_row =
  file_id :: string
  file_user_id :: string
  device_id :: "string option"
  folder_id :: "string option"
  file_name :: string
  file_path :: string
  file_size :: int
  mime_type :: "string option"
  file_hash :: string
  chunk_count :: int
  is_public :: int
  public_title :: "string option"
  public_category :: "string option"
  is_deleted :: int
  created_at :: int
  updated_at :: int

record chunk_row =
  chunk_id :: string
  chunk_file_id :: string
  chunk_index :: int
  chunk_size :: int
  chunk_hash :: string
  chunk_bot_id :: string
  telegram_message_id :: int
  telegram_file_id :: string
  channel_id :: string
  chunk_created_at :: int

record db =
  bots :: "bot_row list"
  folders :: "folder_row list"
  files :: "file_row list"
  chunks :: "chunk_row list"

text \<open>\<^verbatim>\<open>SELECT ... FROM files WHERE file_id = ? AND user_id = ?\<close>, first row.\<close>

definition select_file :: "db \<Rightarrow> string \<Rightarrow> string \<Rightarrow> file_row option" where
  "select_file d fid uid =
     find (\<lambda>f. file_id f = fid \<and> file_user_id f = uid) (files d)"

text \<open>\<^verbatim>\<open>... WHERE file_id = ? AND user_id = ? AND is_deleted = 0\<close>, first row.\<close>

definition select_live_file :: "db \<Rightarrow> string \<Rightarrow> string \<Rightarrow> file_row option" where
  "select_live_file d fid uid =
     find (\<lambda>f. file_id f = fid \<and> file_user_id f = uid \<and> is_deleted f = 0) (files d)"

text \<open>
  The duplicate check:
  \<^verbatim>\<open>SELECT file_id FROM files WHERE user_id = ? AND file_hash = ? AND is_deleted = 0\<close>.
\<close>

definition select_by_hash :: "db \<Rightarrow> string \<Rightarrow> string \<Rightarrow> file_row option" where
  "select_by_hash d uid h =
     find (\<lambda>f. file_user_id f = uid \<and> file_hash f = h \<and> is_deleted f = 0) (files d)"

text \<open>\<^verbatim>\<open>SELECT ... FROM folders WHERE folder_id = ? AND user_id = ?\<close>, first row.\<close>

definition select_folder :: "db \<Rightarrow> string \<Rightarrow> string \<Rightarrow> folder_row option" where
  "select_folder d fo uid =
     find (\<lambda>r. fo_folder_id r = fo \<and> fo_user_id r = uid) (folders d)"

text \<open>
  \<^verbatim>\<open>ORDER BY last_health_check DESC\<close>: a stable insertion sort on the nullable
  column, \<^verbatim>\<open>NULL\<close> being the smallest value and therefore last.
\<close>

definition check_ge :: "int option \<Rightarrow> int option \<Rightarrow> bool" where
  "check_ge a b =
     (case b of None \<Rightarrow> True
      | Some y \<Rightarrow> (case a of None \<Rightarrow> False | Some x \<Rightarrow> y \<le> x))"

fun insert_desc :: "bot_row \<Rightarrow> bot_row list \<Rightarrow> bot_row list" where
  "insert_desc b [] = [b]"
| "insert_desc b (x # xs) =
     (if check_ge (last_health_check b) (last_health_check x) then b # x # xs
      else x # insert_desc b xs)"

definition order_by_health_check_desc :: "bot_row list \<Rightarrow> bot_row list" where
  "order_by_health_check_desc rows = foldr insert_desc rows []"

text \<open>
  The backend pool:
  \<^verbatim>\<open>
  SELECT bot_id, bot_token_enc, channel_id FROM bots
  WHERE user_id = ? AND is_active = 1 AND health_status = 'healthy'
  ORDER BY last_health_check DESC
  \<close>
\<close>

definition select_healthy_bots :: "db \<Rightarrow> string \<Rightarrow> bot_row list" where
  "select_healthy_bots d uid =
     order_by_health_check_desc
       (filter (\<lambda>b. bot_user_id b = uid \<and> is_active b = 1 \<and> health_status b = Some ''healthy'')
          (bots d))"

text \<open>
  The chunk query of the read handlers, joined with the bot of every chunk:
  \<^verbatim>\<open>
  SELECT chunk_index, chunk_size, telegram_file_id, telegram_message_id, chunks.bot_id,
         bot_token_enc, chunks.channel_id as stored_channel_id, bots.channel_id as bot_channel_id
  FROM chunks JOIN bots ON chunks.bot_id = bots.bot_id
  WHERE chunks.file_id = ? AND bots.is_active = 1 AND bots.channel_id IS NOT NULL
  ORDER BY chunk_index ASC
  \<close>
  (the download handler selects the message reference and not the size, the stream handler
  the size and not the message reference).
\<close>

record chunk_join =
  cj_chunk_index :: int
  cj_chunk_size :: int
  cj_telegram_file_id :: string
  cj_telegram_message_id :: int
  cj_bot_id :: string
  cj_bot_token_enc :: string
  stored_channel_id :: "string option"
  cj_bot_channel_id :: "string option"

definition join_bot :: "chunk_row \<Rightarrow> bot_row \<Rightarrow> chunk_join" where
  "join_bot c b =
     \<lparr> cj_chunk_index = chunk_index c, cj_chunk_size = chunk_size c,
       cj_telegram_file_id = telegram_file_id c,
       cj_telegram_message_id = telegram_message_id c,
       cj_bot_id = chunk_bot_id c, cj_bot_token_enc = bot_token_enc b,
       stored_channel_id = Some (channel_id c), cj_bot_channel_id = bot_channel_id b \<rparr>"

definition join_active :: "db \<Rightarrow> chunk_row \<Rightarrow> chunk_join list" where
  "join_active d c =
     map (join_bot c)
       (filter (\<lambda>b. bot_id b = chunk_bot_id c \<and> is_active b = 1 \<and> bot_channel_id b \<noteq> None)
          (bots d))"

definition select_chunks :: "db \<Rightarrow> string \<Rightarrow> chunk_join list" where
  "select_chunks d fid =
     sort_key cj_chunk_index
       (concat (map (join_active d) (filter (\<lambda>c. chunk_file_id c = fid) (chunks d))))"

text \<open>\<^verbatim>\<open>SELECT COUNT(*) as count FROM chunks WHERE file_id = ?\<close>.\<close>

definition count_chunks :: "db \<Rightarrow> string \<Rightarrow> int" where
  "count_chunks d fid = int (length (filter (\<lambda>c. chunk_file_id c = fid) (chunks d)))"

text \<open>
  \<^verbatim>\<open>INSERT INTO chunks\<close> under the constraints of the table: the primary key
  \<^verbatim>\<open>chunk_id\<close>, \<^verbatim>\<open>UNIQUE(file_id, chunk_index)\<close> and the two foreign keys. A violated
  constraint makes the statement throw (\<open>Inl\<close>) and leaves the table as it was.
\<close>

definition insert_chunk :: "db \<Rightarrow> chunk_row \<Rightarrow> string + db" where
  "insert_chunk d row =
     (if list_ex (\<lambda>c. chunk_id c = chunk_id row) (chunks d) then
        Inl ''D1_ERROR: UNIQUE constraint failed: chunks.chunk_id''
      else if list_ex (\<lambda>c. chunk_file_id c = chunk_file_id row \<and> chunk_index c = chunk_index row)
                (chunks d) then
        Inl ''D1_ERROR: UNIQUE constraint failed: chunks.file_id, chunks.chunk_index''
      else if list_ex (\<lambda>f. file_id f = chunk_file_id row) (files d)
              \<and> list_ex (\<lambda>b. bot_id b = chunk_bot_id row) (bots d) then
        Inr (d\<lparr>chunks := chunks d @ [row]\<rparr>)
      else Inl ''D1_ERROR: FOREIGN KEY constraint failed'')"

text \<open>
  \<^verbatim>\<open>INSERT INTO files\<close> under the primary key \<^verbatim>\<open>file_id\<close> (the referenced users,
  devices and folders live in tables outside this model).
\<close>

definition insert_file :: "db \<Rightarrow> file_row \<Rightarrow> string + db" where
  "insert_file d row =
     (if list_ex (\<lambda>f. file_id f = file_id row) (files d) then
        Inl ''D1_ERROR: UNIQUE constraint failed: files.file_id''
      else Inr (d\<lparr>files := files d @ [row]\<rparr>))"

text \<open>\<^verbatim>\<open>UPDATE files SET updated_at = ? WHERE file_id = ?\<close>.\<close>

definition touch_file :: "db \<Rightarrow> int \<Rightarrow> string \<Rightarrow> db" where
  "touch_file d now fid =
     d\<lparr>files := map (\<lambda>f. if file_id f = fid then f\<lparr>updated_at := now\<rparr> else f) (files d)\<rparr>"

text \<open>\<^verbatim>\<open>UPDATE chunks SET telegram_file_id = ? WHERE chunk_id = ?\<close>.\<close>

definition update_telegram_file_id :: "db \<Rightarrow> string \<Rightarrow> string \<Rightarrow> db" where
  "update_telegram_file_id d new_ref cid =
     d\<lparr>chunks := map (\<lambda>c. if chunk_id c = cid then c\<lparr>telegram_file_id := new_ref\<rparr> else c)
                    (chunks d)\<rparr>"

subsection \<open>Upload handlers\<close>

text \<open>
  The JSON body of \<^verbatim>\<open>POST /api/files/upload/init\<close>; an absent field is \<open>None\<close>.
\<close>

record init_request =
  rq_file_name :: "string option"
  rq_file_size :: "int option"
  rq_mime_type :: "string option"
  rq_file_hash :: "string option"
  rq_device_id :: "string option"
  rq_file_path :: "string option"
  rq_folder_id :: "string option"
  rq_is_public :: bool
  rq_public_title :: "string option"
  rq_public_category :: "string option"

text \<open>\<^verbatim>\<open>x || null\<close> on an optional string.\<close>

definition or_null :: "string option \<Rightarrow> string option" where
  "or_null v = (if truthy_str v then v else None)"

text \<open>
  The round-robin plan returned by the init call:
  \<^verbatim>\<open>Array.from({ length: chunk_count }, (_, i) => ({chunk_index: i,
  bot_id: bots.results[i % bots.results.length].bot_id}))\<close>.
\<close>

definition bot_assignments :: "bot_row list \<Rightarrow> int \<Rightarrow> json list" where
  "bot_assignments pool n_chunks =
     map (\<lambda>i. JObj [(''chunk_index'', JNum i),
                     (''bot_id'', JStr (bot_id (pool ! nat (js_rem i (int (length pool))))))])
       [0..n_chunks - 1]"

text \<open>
  \<^verbatim>\<open>POST /api/files/upload/init\<close>. The generated file identifier
  (\<^verbatim>\<open>file_${Date.now()}_${random}\<close>) and the current time in seconds are inputs. Any
  exception is caught by the handler and answered with status 500.
\<close>

definition upload_init ::
  "db \<Rightarrow> string \<Rightarrow> init_request \<Rightarrow> string \<Rightarrow> int \<Rightarrow> response \<times> db" where
  "upload_init d user_id rq new_file_id now =
     (if \<not> truthy_str (rq_file_name rq) \<or> \<not> truthy_num (rq_file_size rq)
         \<or> \<not> truthy_str (rq_file_hash rq) then
        (Json 400 [(''error'', JStr ''file_name, file_size, and file_hash required'')], d)
      else
        (case (rq_file_name rq, rq_file_size rq, rq_file_hash rq) of
           (Some fname, Some fsize, Some fhash) \<Rightarrow>
             (case select_by_hash d user_id fhash of
                Some existing \<Rightarrow>
                  (Json 409 [(''error'', JStr ''File already exists''),
                             (''file_id'', JStr (file_id existing)),
                             (''duplicate'', JBool True)], d)
              | None \<Rightarrow>
                  (let n_chunks = ceil_div fsize CHUNK_SIZE;
                       pool = select_healthy_bots d user_id
                   in if length pool = 0 then
                        (Json 400 [(''error'', JStr ''No active bots found. Please add a bot first.'')], d)
                      else if truthy_str (rq_folder_id rq)
                              \<and> select_folder d (the (rq_folder_id rq)) user_id = None then
                        (Json 404 [(''error'', JStr ''Folder not found'')], d)
                      else
                        (let final_file_path =
                               (case (if truthy_str (rq_folder_id rq)
                                      then select_folder d (the (rq_folder_id rq)) user_id
                                      else None) of
                                  Some folder \<Rightarrow> folder_path folder @ ''/'' @ fname
                                | None \<Rightarrow>
                                    (case or_null (rq_file_path rq) of
                                       Some p \<Rightarrow> p
                                     | None \<Rightarrow> ''/'' @ fname));
                             row = \<lparr> file_id = new_file_id, file_user_id = user_id,
                                     device_id = or_null (rq_device_id rq),
                                     folder_id = or_null (rq_folder_id rq),
                                     file_name = fname, file_path = final_file_path,
                                     file_size = fsize,
                                     mime_type = or_null (rq_mime_type rq),
                                     file_hash = fhash, chunk_count = n_chunks,
                                     is_public = (if rq_is_public rq then 1 else 0),
                                     public_title = or_null (rq_public_title rq),
                                     public_category = or_null (rq_public_category rq),
                                     is_deleted = 0, created_at = now, updated_at = now \<rparr>
                         in case insert_file d row of
                              Inl e \<Rightarrow> (Json 500 [(''error'', JStr ''Failed to initialize upload'')], d)
                            | Inr d' \<Rightarrow>
                                (Json 200 [(''file_id'', JStr new_file_id),
                                           (''chunk_count'', JNum n_chunks),
                                           (''chunk_size'', JNum CHUNK_SIZE),
                                           (''bot_assignments'',
                                              JArr (bot_assignments pool n_chunks))], d'))))
         | _ \<Rightarrow> (Json 400 [(''error'', JStr ''file_name, file_size, and file_hash required'')], d)))"

text \<open>The JSON body of \<^verbatim>\<open>POST /api/files/upload/chunk\<close>.\<close>

record chunk_request =
  rq_file_id :: "string option"
  rq_chunk_index :: "int option"
  rq_chunk_data :: "string option"
  rq_chunk_hash :: "string option"

text \<open>
  Backend selection of the chunk upload (round-robin over the pool):
  \<^verbatim>\<open>
  if (bots.results.length === 0) return c.json({ error: 'No active bots found' }, 400);
  const selectedBot = bots.results[chunk_index % bots.results.length];
  \<close>
  The selected element is \<^verbatim>\<open>undefined\<close> (\<open>None\<close>) when the remainder is negative.
\<close>

definition select_bot :: "db \<Rightarrow> string \<Rightarrow> int \<Rightarrow> response + bot_row option" where
  "select_bot d user_id idx =
     (let pool = select_healthy_bots d user_id
      in if length pool = 0 then Inl (Json 400 [(''error'', JStr ''No active bots found'')])
         else Inr (array_get pool (js_rem idx (int (length pool)))))"

definition upload_failed :: "string \<Rightarrow> response" where
  "upload_failed message =
     Json 500 [(''error'', JStr ''Failed to upload chunk''), (''message'', JStr message)]"

text \<open>
  \<^verbatim>\<open>POST /api/files/upload/chunk\<close>. The platform's base64 decoder \<^verbatim>\<open>atob\<close> is a
  parameter (\<open>None\<close> when it throws), and so is the current time in seconds. Reading
  \<^verbatim>\<open>channel_id\<close> of an \<^verbatim>\<open>undefined\<close> selection throws a TypeError; every exception is
  answered with status 500.
\<close>

definition upload_chunk ::
  "db \<Rightarrow> telegram \<Rightarrow> (string \<Rightarrow> bytes option) \<Rightarrow> string \<Rightarrow> chunk_request \<Rightarrow> int \<Rightarrow> response \<times> db" where
  "upload_chunk d tg atob user_id rq now =
     (if \<not> truthy_str (rq_file_id rq) \<or> rq_chunk_index rq = None
         \<or> \<not> truthy_str (rq_chunk_data rq) \<or> \<not> truthy_str (rq_chunk_hash rq) then
        (Json 400 [(''error'', JStr ''file_id, chunk_index, chunk_data, and chunk_hash required'')], d)
      else
        (case (rq_file_id rq, rq_chunk_index rq, rq_chunk_data rq, rq_chunk_hash rq) of
           (Some fid, Some idx, Some chunk_data, Some chash) \<Rightarrow>
             (case select_file d fid user_id of
                None \<Rightarrow> (Json 404 [(''error'', JStr ''File not found'')], d)
              | Some file \<Rightarrow>
                  if idx \<ge> chunk_count file then
                    (Json 400 [(''error'', JStr ''Invalid chunk_index'')], d)
                  else
                    (case select_bot d user_id idx of
                       Inl resp \<Rightarrow> (resp, d)
                     | Inr None \<Rightarrow>
                         (upload_failed
                            ''Cannot read properties of undefined (reading 'channel_id')'', d)
                     | Inr (Some selectedBot) \<Rightarrow>
                         if \<not> truthy_str (bot_channel_id selectedBot) then
                           (Json 400 [(''error'', JStr ''Bot channel not configured'')], d)
                         else
                         (case atob chunk_data of
                            None \<Rightarrow> (upload_failed ''Invalid character'', d)
                          | Some chunkBuffer \<Rightarrow>
                              (case sendDocument tg (bot_token_enc selectedBot)
                                      (the (bot_channel_id selectedBot)) chunkBuffer
                                      (''chunk_'' @ toString idx @ ''.bin'') of
                                 Inl e \<Rightarrow> (upload_failed e, d)
                               | Inr (msg_id, tg_file_id) \<Rightarrow>
                                   (let row = \<lparr> chunk_id = ''chunk_'' @ fid @ ''_'' @ toString idx,
                                               chunk_file_id = fid, chunk_index = idx,
                                               chunk_size = int (length chunkBuffer),
                                               chunk_hash = chash,
                                               chunk_bot_id = bot_id selectedBot,
                                               telegram_message_id = msg_id,
                                               telegram_file_id = tg_file_id,
                                               channel_id = the (bot_channel_id selectedBot),
                                               chunk_created_at = now \<rparr>
                                    in case insert_chunk d row of
                                         Inl e \<Rightarrow> (upload_failed e, d)
                                       | Inr d' \<Rightarrow>
                                           (Json 200 [(''success'', JBool True),
                                                      (''chunk_index'', JNum idx),
                                                      (''message_id'', JNum msg_id),
                                                      (''file_id'', JStr tg_file_id)], d'))))))
         | _ \<Rightarrow> (Json 400 [(''error'', JStr ''file_id, chunk_index, chunk_data, and chunk_hash required'')], d)))"

text \<open>\<^verbatim>\<open>POST /api/files/upload/complete\<close>.\<close>

definition upload_complete :: "db \<Rightarrow> string \<Rightarrow> string option \<Rightarrow> int \<Rightarrow> response \<times> db" where
  "upload_complete d user_id rq_fid now =
     (case rq_fid of
        None \<Rightarrow> (Json 400 [(''error'', JStr ''file_id required'')], d)
      | Some fid \<Rightarrow>
          if fid = [] then (Json 400 [(''error'', JStr ''file_id required'')], d)
          else
            (case select_file d fid user_id of
               None \<Rightarrow> (Json 404 [(''error'', JStr ''File not found'')], d)
             | Some file \<Rightarrow>
                 if count_chunks d fid \<noteq> chunk_count file then
                   (Json 400 [(''error'', JStr ''Not all chunks uploaded''),
                              (''uploaded'', JNum (count_chunks d fid)),
                              (''required'', JNum (chunk_count file))], d)
                 else
                   (Json 200 [(''success'', JBool True), (''file_id'', JStr fid),
                              (''message'', JStr ''Upload complete'')],
                    touch_file d now fid)))"

subsection \<open>The download handler\<close>

text \<open>
  One iteration of the download loop, inside its outer \<^verbatim>\<open>try\<close>: the bot token check, the
  fetch by the stored file reference (preceded by the token verification), and on any
  failure of these two the fallback through the stored message reference, which writes the
  fresh reference to the chunk row \<^verbatim>\<open>chunk_${file_id}_${chunk_index}\<close> and fetches once
  more. The result is the chunk's bytes or the message of the error that reaches the
  outer \<^verbatim>\<open>catch\<close>, together with the database.
\<close>

definition fallback_failed :: "int \<Rightarrow> string \<Rightarrow> string \<Rightarrow> string" where
  "fallback_failed idx errorMsg fallbackMsg =
     ''Failed to retrieve chunk '' @ toString idx @ ''. Original error: '' @ errorMsg
       @ ''. Fallback error: '' @ fallbackMsg"

definition message_fallback ::
  "telegram \<Rightarrow> db \<Rightarrow> string \<Rightarrow> chunk_join \<Rightarrow> string \<Rightarrow> (string + bytes) \<times> db" where
  "message_fallback tg d fid chunk errorMsg =
     (case or_str (stored_channel_id chunk) (cj_bot_channel_id chunk) of
        None \<Rightarrow> (Inl (''Channel ID not found for chunk '' @ toString (cj_chunk_index chunk)), d)
      | Some channelId \<Rightarrow>
          if channelId = [] then
            (Inl (''Channel ID not found for chunk '' @ toString (cj_chunk_index chunk)), d)
          else if cj_telegram_message_id chunk = 0 then
            (Inl (''Message ID not found for chunk '' @ toString (cj_chunk_index chunk)), d)
          else
            (case getFileFromMessage tg (cj_bot_token_enc chunk) channelId
                    (cj_telegram_message_id chunk) of
               None \<Rightarrow>
                 (Inl (fallback_failed (cj_chunk_index chunk) errorMsg
                        (''Could not retrieve file from message ''
                         @ toString (cj_telegram_message_id chunk)
                         @ ''. The message may have been deleted.'')), d)
             | Some fileFromMessage \<Rightarrow>
                 if \<not> truthy_str (tf_file_path fileFromMessage) then
                   (Inl (fallback_failed (cj_chunk_index chunk) errorMsg
                          (''Could not retrieve file from message ''
                           @ toString (cj_telegram_message_id chunk)
                           @ ''. The message may have been deleted.'')), d)
                 else
                   (let d' = update_telegram_file_id d (tf_file_id fileFromMessage)
                               (''chunk_'' @ fid @ ''_'' @ toString (cj_chunk_index chunk))
                    in case downloadFile tg (cj_bot_token_enc chunk) (tf_file_id fileFromMessage) of
                         Inr chunkData \<Rightarrow> (Inr chunkData, d')
                       | Inl fallbackMsg \<Rightarrow>
                           (Inl (fallback_failed (cj_chunk_index chunk) errorMsg fallbackMsg), d'))))"

definition fetch_chunk ::
  "telegram \<Rightarrow> db \<Rightarrow> string \<Rightarrow> chunk_join \<Rightarrow> (string + bytes) \<times> db" where
  "fetch_chunk tg d fid chunk =
     (if length (trim (cj_bot_token_enc chunk)) = 0 then
        (Inl ''Bot token is empty or invalid'', d)
      else
        (case (case getBotInfo tg (cj_bot_token_enc chunk) of
                 Inl e \<Rightarrow>
                   Inl ''Bot token is invalid or expired. Please re-add the bot in Settings.''
               | Inr botInfo \<Rightarrow>
                   downloadFile tg (cj_bot_token_enc chunk) (cj_telegram_file_id chunk))
         of Inr chunkData \<Rightarrow> (Inr chunkData, d)
          | Inl errorMsg \<Rightarrow> message_fallback tg d fid chunk errorMsg))"

text \<open>The outer \<^verbatim>\<open>catch (chunkError)\<close> of the download loop.\<close>

definition download_error :: "chunk_join \<Rightarrow> string \<Rightarrow> response" where
  "download_error chunk errorMessage =
     (if str_includes errorMessage ''file not found'' \<or> str_includes errorMessage ''404''
         \<or> str_includes errorMessage ''400'' then
        Json 404 [(''error'', JStr ''File chunk not found in Telegram''),
                  (''message'', JStr (''Chunk '' @ toString (cj_chunk_index chunk)
                      @ '' appears to be missing. The file may need to be re-uploaded.'')),
                  (''chunk_index'', JNum (cj_chunk_index chunk)),
                  (''suggestion'', JStr ''Try re-uploading this file''),
                  (''debug'', JObj [(''bot_id'', JStr (cj_bot_id chunk)),
                                    (''stored_channel_id'', json_opt (stored_channel_id chunk)),
                                    (''bot_channel_id'', json_opt (cj_bot_channel_id chunk)),
                                    (''file_id_preview'',
                                       JStr (take 30 (cj_telegram_file_id chunk)))])]
      else
        Json 500 [(''error'', JStr ''Failed to download file chunk''),
                  (''message'', JStr errorMessage),
                  (''chunk_index'', JNum (cj_chunk_index chunk))])"

fun download_loop ::
  "telegram \<Rightarrow> string \<Rightarrow> chunk_join list \<Rightarrow> bytes list \<Rightarrow> db \<Rightarrow> (response + bytes list) \<times> db" where
  "download_loop tg fid [] chunkBuffers d = (Inr chunkBuffers, d)"
| "download_loop tg fid (chunk # rest) chunkBuffers d =
     (case fetch_chunk tg d fid chunk of
        (Inl errorMessage, d') \<Rightarrow> (Inl (download_error chunk errorMessage), d')
      | (Inr chunkData, d') \<Rightarrow> download_loop tg fid rest (chunkBuffers @ [chunkData]) d')"

text \<open>The answer when the chunk query returns no row.\<close>

definition no_chunks :: "db \<Rightarrow> string \<Rightarrow> response" where
  "no_chunks d fid =
     (if count_chunks d fid > 0 then
        Json 503 [(''error'', JStr ''File chunks found but bot is inactive or channel not configured''),
                  (''message'', JStr ''Please ensure your bot is active and has a channel configured'')]
      else Json 404 [(''error'', JStr ''File chunks not found'')])"

definition content_type :: "string option \<Rightarrow> string" where
  "content_type mime =
     (case or_null mime of None \<Rightarrow> ''application/octet-stream'' | Some m \<Rightarrow> m)"

text \<open>\<^verbatim>\<open>GET /api/files/:file_id/download\<close>.\<close>

definition download :: "db \<Rightarrow> telegram \<Rightarrow> string \<Rightarrow> string \<Rightarrow> response \<times> db" where
  "download d tg user_id fid =
     (case select_live_file d fid user_id of
        None \<Rightarrow> (Json 404 [(''error'', JStr ''File not found'')], d)
      | Some file \<Rightarrow>
          (let rows = select_chunks d fid
           in if length rows = 0 then (no_chunks d fid, d)
              else
                (case download_loop tg fid rows [] d of
                   (Inl resp, d') \<Rightarrow> (resp, d')
                 | (Inr chunkBuffers, d') \<Rightarrow>
                     (case combine chunkBuffers of
                        None \<Rightarrow>
                          (Json 500 [(''error'', JStr ''Failed to download file''),
                                     (''message'', JStr ''offset is out of bounds'')], d')
                      | Some combined \<Rightarrow>
                          (Binary 200
                             [(''Content-Type'', content_type (mime_type file)),
                              (''Content-Disposition'',
                                 ''attachment; filename='' @ [CHR 0x22] @ file_name file @ [CHR 0x22]),
                              (''Content-Length'', toString (int (length combined)))]
                             combined, d')))))"

subsection \<open>The stream handler\<close>

text \<open>
  \<^verbatim>\<open>parseRange\<close>. The unanchored pattern \<^verbatim>\<open>/bytes=(\d+)-(\d*)/\<close> matches at the leftmost
  position where a match exists; both groups are greedy, and giving a digit back never
  lets the rest of the pattern match, so the groups are the maximal runs of digits.
\<close>

definition match_here :: "string \<Rightarrow> (string \<times> string) option" where
  "match_here s =
     (if startsWith s ''bytes='' then
        (let rest = drop 6 s;
             g1 = takeWhile is_digit rest;
             rest' = dropWhile is_digit rest
         in if g1 \<noteq> [] \<and> startsWith rest' ''-''
            then Some (g1, takeWhile is_digit (drop 1 rest'))
            else None)
      else None)"

fun regex_match :: "string \<Rightarrow> (string \<times> string) option" where
  "regex_match [] = match_here []"
| "regex_match (c # s) =
     (case match_here (c # s) of
        Some groups \<Rightarrow> Some groups
      | None \<Rightarrow> regex_match s)"

definition parseRange :: "string \<Rightarrow> int \<Rightarrow> int \<times> int" where
  "parseRange range_header fileSize =
     (case regex_match range_header of
        None \<Rightarrow> (0, fileSize - 1)
      | Some (g1, g2) \<Rightarrow>
          (let start = parseInt g1;
               end = (if g2 \<noteq> [] then parseInt g2 else fileSize - 1)
           in (start, min end (fileSize - 1))))"

text \<open>The cache service.\<close>

definition getCacheKey :: "string \<Rightarrow> int \<Rightarrow> (int \<times> int) option \<Rightarrow> string" where
  "getCacheKey fid idx byte_range =
     (case byte_range of
        Some (start, end) \<Rightarrow>
          ''file:'' @ fid @ '':chunk:'' @ toString idx @ '':range:'' @ toString start
            @ ''-'' @ toString end
      | None \<Rightarrow> ''file:'' @ fid @ '':chunk:'' @ toString idx)"

definition shouldCache :: "string option \<Rightarrow> bool" where
  "shouldCache mimeType =
     (case or_null mimeType of
        None \<Rightarrow> False
      | Some m \<Rightarrow> startsWith m ''video/'' \<or> startsWith m ''image/'' \<or> startsWith m ''audio/'')"

definition CACHE_TTL :: int where
  "CACHE_TTL = 60 * 60 * 24"

definition headers_set :: "(string \<times> string) list \<Rightarrow> string \<Rightarrow> string \<Rightarrow> (string \<times> string) list" where
  "headers_set hs name v = filter (\<lambda>h. fst h \<noteq> name) hs @ [(name, v)]"

type_synonym cache = "string \<Rightarrow> response option"

fun setCached :: "string \<Rightarrow> response \<Rightarrow> cache \<Rightarrow> cache" where
  "setCached cacheKey (Binary st hs body) cache =
     cache(cacheKey \<mapsto>
       Binary st (headers_set (headers_set hs ''Cache-Control''
                     (''public, max-age='' @ toString CACHE_TTL)) ''X-Cache-Key'' cacheKey) body)"
| "setCached cacheKey (Json st body) cache = cache(cacheKey \<mapsto> Json st body)"

text \<open>
  Chunk selection of a range request: the loop over the chunk rows with the running
  offset \<^verbatim>\<open>chunkStart\<close>.
\<close>

record needed_chunk =
  nc_chunk :: chunk_join
  extractStart :: int
  extractEnd :: int
  globalStart :: int
  globalEnd :: int

fun find_needed :: "chunk_join list \<Rightarrow> int \<Rightarrow> int \<Rightarrow> int \<Rightarrow> needed_chunk list" where
  "find_needed [] chunkStart start end = []"
| "find_needed (chunk # rest) chunkStart start end =
     (let chunkEnd = chunkStart + cj_chunk_size chunk
      in (if chunkEnd > start \<and> chunkStart \<le> end then
            [\<lparr> nc_chunk = chunk,
               extractStart = max 0 (start - chunkStart),
               extractEnd = min (cj_chunk_size chunk) (end - chunkStart + 1),
               globalStart = chunkStart, globalEnd = chunkEnd \<rparr>]
          else [])
         @ find_needed rest chunkEnd start end)"

text \<open>The \<^verbatim>\<open>catch (chunkError)\<close> of both stream loops.\<close>

definition stream_error :: "chunk_join \<Rightarrow> string \<Rightarrow> response" where
  "stream_error chunk errorMessage =
     (if str_includes errorMessage ''file not found'' \<or> str_includes errorMessage ''404'' then
        Json 404 [(''error'', JStr ''File chunk not found in Telegram''),
                  (''message'', JStr (''Chunk '' @ toString (cj_chunk_index chunk)
                      @ '' appears to be missing. The file may need to be re-uploaded.'')),
                  (''chunk_index'', JNum (cj_chunk_index chunk)),
                  (''suggestion'', JStr ''Try re-uploading this file'')]
      else
        Json 500 [(''error'', JStr ''Failed to stream file chunk''),
                  (''message'', JStr errorMessage),
                  (''chunk_index'', JNum (cj_chunk_index chunk))])"

text \<open>Download and extract the needed portions.\<close>

fun range_loop :: "telegram \<Rightarrow> needed_chunk list \<Rightarrow> bytes list \<Rightarrow> response + bytes list" where
  "range_loop tg [] parts = Inr parts"
| "range_loop tg (needed # rest) parts =
     (case downloadFile tg (cj_bot_token_enc (nc_chunk needed))
             (cj_telegram_file_id (nc_chunk needed)) of
        Inl errorMessage \<Rightarrow> Inl (stream_error (nc_chunk needed) errorMessage)
      | Inr chunkData \<Rightarrow>
          range_loop tg rest
            (parts @ [u8_slice chunkData (extractStart needed) (extractEnd needed)]))"

text \<open>No range: download all chunks.\<close>

fun stream_loop :: "telegram \<Rightarrow> chunk_join list \<Rightarrow> bytes list \<Rightarrow> response + bytes list" where
  "stream_loop tg [] chunkBuffers = Inr chunkBuffers"
| "stream_loop tg (chunk # rest) chunkBuffers =
     (case downloadFile tg (cj_bot_token_enc chunk) (cj_telegram_file_id chunk) of
        Inl errorMessage \<Rightarrow> Inl (stream_error chunk errorMessage)
      | Inr chunkData \<Rightarrow> stream_loop tg rest (chunkBuffers @ [chunkData]))"

definition stream_failed :: response where
  "stream_failed =
     Json 500 [(''error'', JStr ''Failed to stream file''),
               (''message'', JStr ''offset is out of bounds'')]"

text \<open>
  \<^verbatim>\<open>GET /api/files/:file_id/stream\<close>; \<open>range_header\<close> is the value of the \<^verbatim>\<open>Range\<close> header,
  \<open>None\<close> when the request has none. An empty header value is falsy, like an absent one.
\<close>

definition stream ::
  "db \<Rightarrow> telegram \<Rightarrow> cache \<Rightarrow> string \<Rightarrow> string \<Rightarrow> string option \<Rightarrow> response \<times> cache" where
  "stream d tg cache user_id fid range_header =
     (case select_live_file d fid user_id of
        None \<Rightarrow> (Json 404 [(''error'', JStr ''File not found'')], cache)
      | Some file \<Rightarrow>
          (let rows = select_chunks d fid
           in if length rows = 0 then (no_chunks d fid, cache)
              else if truthy_str range_header then
                (case parseRange (the range_header) (file_size file) of
                   (start, end) \<Rightarrow>
                     (let cacheKey = getCacheKey fid 0 (Some (start, end))
                      in case (if shouldCache (mime_type file) then cache cacheKey else None) of
                           Some cached \<Rightarrow> (cached, cache)
                         | None \<Rightarrow>
                             (case range_loop tg (find_needed rows 0 start end) [] of
                                Inl resp \<Rightarrow> (resp, cache)
                              | Inr parts \<Rightarrow>
                                  (case combine parts of
                                     None \<Rightarrow> (stream_failed, cache)
                                   | Some combined \<Rightarrow>
                                       (let response =
                                              Binary 206
                                                [(''Content-Type'', content_type (mime_type file)),
                                                 (''Content-Range'',
                                                    ''bytes '' @ toString start @ ''-'' @ toString end
                                                      @ ''/'' @ toString (file_size file)),
                                                 (''Accept-Ranges'', ''bytes''),
                                                 (''Content-Length'', toString (int (length combined)))]
                                                combined
                                        in (response,
                                            if shouldCache (mime_type file)
                                            then setCached cacheKey response cache
                                            else cache))))))
              else
                (let cacheKey = getCacheKey fid 0 None
                 in case (if shouldCache (mime_type file) then cache cacheKey else None) of
                      Some cached \<Rightarrow> (cached, cache)
                    | None \<Rightarrow>
                        (case stream_loop tg rows [] of
                           Inl resp \<Rightarrow> (resp, cache)
                         | Inr chunkBuffers \<Rightarrow>
                             (case combine chunkBuffers of
                                None \<Rightarrow> (stream_failed, cache)
                              | Some combined \<Rightarrow>
                                  (let response =
                                         Binary 200
                                           [(''Content-Type'', content_type (mime_type file)),
                                            (''Content-Length'', toString (int (length combined))),
                                            (''Accept-Ranges'', ''bytes'')]
                                           combined
                                   in (response,
                                       if shouldCache (mime_type file)
                                       then setCached cacheKey response cache
                                       else cache)))))))"

subsection \<open>Notions used to state the properties\<close>

text \<open>
  A chunk row is \<open>fetched\<close> as \<open>data\<close> when the remote side returns \<open>data\<close> for its stored
  file reference and the recorded size is the size of \<open>data\<close>.
\<close>

definition fetched :: "telegram \<Rightarrow> chunk_join \<Rightarrow> bytes \<Rightarrow> bool" where
  "fetched tg row data \<longleftrightarrow>
     downloadFile tg (cj_bot_token_enc row) (cj_telegram_file_id row) = Inr data
     \<and> cj_chunk_size row = int (length data)"

text \<open>The bytes the remote side returns for a chunk row (empty when the fetch fails).\<close>

definition chunk_data :: "telegram \<Rightarrow> chunk_join \<Rightarrow> bytes" where
  "chunk_data tg row =
     (case downloadFile tg (cj_bot_token_enc row) (cj_telegram_file_id row) of
        Inr data \<Rightarrow> data
      | Inl e \<Rightarrow> [])"





text \<open>
  A chunk row is \<open>directly_fetched\<close> by the download handler when its token passes the
  checks that precede the fetch and the stored file reference yields the data.
\<close>

definition directly_fetched :: "telegram \<Rightarrow> chunk_join \<Rightarrow> bytes \<Rightarrow> bool" where
  "directly_fetched tg row data \<longleftrightarrow>
     trim (cj_bot_token_enc row) \<noteq> []
     \<and> (case getBotInfo tg (cj_bot_token_enc row) of Inr info \<Rightarrow> True | Inl e \<Rightarrow> False)
     \<and> downloadFile tg (cj_bot_token_enc row) (cj_telegram_file_id row) = Inr data"

text \<open>The owner's live file rows with a given content hash (the dedup boundary).\<close>

definition live_with_hash :: "db \<Rightarrow> string \<Rightarrow> string \<Rightarrow> file_row list" where
  "live_with_hash d uid h =
     filter (\<lambda>f. file_user_id f = uid \<and> file_hash f = h \<and> is_deleted f = 0) (files d)"

text \<open>The chunk records of a file at a chunk index.\<close>

definition records_at :: "db \<Rightarrow> string \<Rightarrow> int \<Rightarrow> chunk_row list" where
  "records_at d fid idx =
     filter (\<lambda>c. chunk_file_id c = fid \<and> chunk_index c = idx) (chunks d)"

text \<open>The chunk indices stored for a file, in insertion order.\<close>

definition stored_indices :: "db \<Rightarrow> string \<Rightarrow> int list" where
  "stored_indices d fid = map chunk_index (filter (\<lambda>c. chunk_file_id c = fid) (chunks d))"

text \<open>The order of the backend pool: most recently health-checked first.\<close>

definition checked_before :: "bot_row \<Rightarrow> bot_row \<Rightarrow> bool" where
  "checked_before a b = check_ge (last_health_check a) (last_health_check b)"

text \<open>The constraint \<^verbatim>\<open>UNIQUE(file_id, chunk_index)\<close> as a property of the chunk table.\<close>

definition unique_chunk_keys :: "db \<Rightarrow> bool" where
  "unique_chunk_keys d = distinct (map (\<lambda>c. (chunk_file_id c, chunk_index c)) (chunks d))"

subsection \<open>A small deployment\<close>

text \<open>
  One user with two healthy bots and a five-byte file stored as three chunks of two, two
  and one byte, the middle chunk on the second bot.
\<close>

definition ex_bot1 :: bot_row where
  "ex_bot1 = \<lparr> bot_id = ''b1'', bot_user_id = ''u1'', bot_token_enc = ''tokA'',
      bot_channel_id = Some ''-1001'', is_active = 1, last_health_check = Some 20,
      health_status = Some ''healthy'' \<rparr>"

definition ex_bot2 :: bot_row where
  "ex_bot2 = \<lparr> bot_id = ''b2'', bot_user_id = ''u1'', bot_token_enc = ''tokB'',
      bot_channel_id = Some ''-1002'', is_active = 1, last_health_check = Some 10,
      health_status = Some ''healthy'' \<rparr>"

definition ex_file :: file_row where
  "ex_file = \<lparr> file_id = ''f1'', file_user_id = ''u1'', device_id = None, folder_id = None,
      file_name = ''a.bin'', file_path = ''/a.bin'', file_size = 5, mime_type = None,
      file_hash = ''h1'', chunk_count = 3, is_public = 0, public_title = None,
      public_category = None, is_deleted = 0, created_at = 100, updated_at = 100 \<rparr>"

definition ex_chunk :: "int \<Rightarrow> int \<Rightarrow> string \<Rightarrow> string \<Rightarrow> string \<Rightarrow> int \<Rightarrow> chunk_row" where
  "ex_chunk idx sz bid chan ref msg =
     \<lparr> chunk_id = ''chunk_f1_'' @ toString idx, chunk_file_id = ''f1'', chunk_index = idx,
       chunk_size = sz, chunk_hash = ''c'', chunk_bot_id = bid, telegram_message_id = msg,
       telegram_file_id = ref, channel_id = chan, chunk_created_at = 100 \<rparr>"

definition ex_db :: db where
  "ex_db = \<lparr> bots = [ex_bot1, ex_bot2], folders = [], files = [ex_file],
      chunks = [ex_chunk 0 2 ''b1'' ''-1001'' ''x0'' 11,
                ex_chunk 1 2 ''b2'' ''-1002'' ''x1'' 12,
                ex_chunk 2 1 ''b1'' ''-1001'' ''x2'' 13] \<rparr>"

text \<open>
  A remote side that holds a table of blobs by file reference and a table of forwardable
  messages (message identifier to file reference); every upload is accepted.
\<close>

definition ex_fetch :: "(string \<times> bytes) list \<Rightarrow> string \<Rightarrow> string + http_response" where
  "ex_fetch blobs url =
     (case map_of blobs (drop (length url - 2) url) of
        Some blob \<Rightarrow>
          Inr \<lparr> http_ok = True, http_status = 200, http_statusText = ''OK'',
                http_text = None, http_arrayBuffer = blob \<rparr>
      | None \<Rightarrow>
          Inr \<lparr> http_ok = False, http_status = 404, http_statusText = ''Not Found'',
                http_text = Some ''Not Found'', http_arrayBuffer = [] \<rparr>)"

definition ex_getFile :: "(string \<times> bytes) list \<Rightarrow> string \<Rightarrow> string \<Rightarrow> string + TelegramFile" where
  "ex_getFile blobs botToken fileId =
     (if fileId \<in> set (map fst blobs) then
        Inr \<lparr> tf_file_id = fileId, tf_file_unique_id = fileId, tf_file_size = None,
              tf_file_path = Some (''documents/'' @ fileId) \<rparr>
      else Inl ''Telegram API error: 400 - Bad Request: invalid file_id'')"

definition ex_forward :: "(int \<times> string) list \<Rightarrow> int \<Rightarrow> string + TelegramMessage" where
  "ex_forward msgs msg =
     (case map_of msgs msg of
        Some ref \<Rightarrow>
          Inr \<lparr> message_id = msg + 100,
                document = Some \<lparr> doc_file_id = ref, doc_file_unique_id = ref \<rparr> \<rparr>
      | None \<Rightarrow> Inl ''Telegram API error: 400 - Bad Request: message to forward not found'')"

definition ex_remote :: "(string \<times> bytes) list \<Rightarrow> (int \<times> string) list \<Rightarrow> telegram" where
  "ex_remote blobs msgs =
     \<lparr> req_getMe = (\<lambda>botToken. Inr \<lparr> tu_id = 7, tu_is_bot = True, tu_first_name = ''bot'',
                                     tu_username = Some ''store_bot'' \<rparr>),
       req_getFile = ex_getFile blobs,
       req_getChat = (\<lambda>botToken chat. Inr ()),
       req_forwardMessage = (\<lambda>botToken chat from_chat msg. ex_forward msgs msg),
       req_sendDocument = (\<lambda>botToken chat buffer name.
          Inr \<lparr> message_id = 21,
                document = Some \<lparr> doc_file_id = ''z0'', doc_file_unique_id = ''z0'' \<rparr> \<rparr>),
       fetch_url = ex_fetch blobs \<rparr>"

definition ex_tg :: telegram where
  "ex_tg = ex_remote [(''x0'', [1, 2]), (''x1'', [3, 4]), (''x2'', [5])] []"

text \<open>
  The same remote side after the file reference \<^verbatim>\<open>x1\<close> of the middle chunk has gone
  stale: the blob is now served under \<^verbatim>\<open>y1\<close>, which forwarding message 12 reveals.
\<close>

definition ex_tg_stale :: telegram where
  "ex_tg_stale = ex_remote [(''x0'', [1, 2]), (''y1'', [3, 4]), (''x2'', [5])] [(12, ''y1'')]"

text \<open>The same database after the second bot has been deactivated.\<close>

definition ex_db_inactive :: db where
  "ex_db_inactive = ex_db\<lparr>bots := [ex_bot1, ex_bot2\<lparr>is_active := 0\<rparr>]\<rparr>"

definition no_cache :: cache where
  "no_cache = (\<lambda>cacheKey. None)"

text \<open>
  A database in which the same user has initialised the upload of a second file of five
  bytes (one chunk) and has not yet uploaded its chunk; the base64 decoder is given on
  the one string the examples send.
\<close>

definition ex_file2 :: file_row where
  "ex_file2 = \<lparr> file_id = ''f2'', file_user_id = ''u1'', device_id = None, folder_id = None,
      file_name = ''b.bin'', file_path = ''/b.bin'', file_size = 5, mime_type = None,
      file_hash = ''h2'', chunk_count = 1, is_public = 0, public_title = None,
      public_category = None, is_deleted = 0, created_at = 200, updated_at = 200 \<rparr>"

definition ex_db2 :: db where
  "ex_db2 = ex_db\<lparr>files := [ex_file, ex_file2]\<rparr>"

definition ex_atob :: "string \<Rightarrow> bytes option" where
  "ex_atob s = (if s = ''AQIDBAU='' then Some [1, 2, 3, 4, 5] else None)"

definition ex_chunk_request :: "int \<Rightarrow> chunk_request" where
  "ex_chunk_request idx =
     \<lparr> rq_file_id = Some ''f2'', rq_chunk_index = Some idx,
       rq_chunk_data = Some ''AQIDBAU='', rq_chunk_hash = Some ''c2'' \<rparr>"

definition ex_init_request :: init_request where
  "ex_init_request =
     \<lparr> rq_file_name = Some ''b.bin'', rq_file_size = Some 5, rq_mime_type = None,
       rq_file_hash = Some ''h2'', rq_device_id = None, rq_file_path = None,
       rq_folder_id = None, rq_is_public = False, rq_public_title = None,
       rq_public_category = None \<rparr>"
section \<open>Round trip of chunking\<close>

lemma set_loop_concat:
  "offset + length (concat bufs) \<le> length combined \<Longrightarrow>
   set_loop combined offset bufs =
     Some (take offset combined @ concat bufs @ drop (offset + length (concat bufs)) combined)"
proof (induction bufs arbitrary: combined offset)
  case Nil
  then show ?case by simp
next
  case (Cons buf bufs)
  let ?c = "take offset combined @ buf @ drop (offset + length buf) combined"
  from Cons.prems have fit: "offset + length buf \<le> length combined" by simp
  then have step: "u8_set combined buf offset = Some ?c" by (simp add: u8_set_def)
  have len: "length ?c = length combined" using fit by simp
  have "set_loop ?c (offset + length buf) bufs =
     Some (take (offset + length buf) ?c @ concat bufs @
           drop (offset + length buf + length (concat bufs)) ?c)"
    using Cons.prems by (intro Cons.IH) (simp add: len)
  moreover have "take (offset + length buf) ?c = take offset combined @ buf"
    using fit by simp
  moreover have "drop (offset + length buf + length (concat bufs)) ?c =
      drop (offset + length (concat (buf # bufs))) combined"
    using fit by (simp add: ac_simps)
  ultimately show ?case using step by simp
qed

lemma fold_length_sum: "fold (\<lambda>buf sum. sum + length buf) bufs n = n + length (concat bufs)"
  by (induction bufs arbitrary: n) auto

lemma combine_concat: "combine bufs = Some (concat bufs)"
  using set_loop_concat [of 0 bufs "replicate (length (concat bufs)) 0"]
  by (simp add: combine_def fold_length_sum)

lemma ceil_div_bounds:
  assumes "0 < b"
  shows "b * (ceil_div a b - 1) < a" and "a \<le> b * ceil_div a b"
proof -
  define q where "q = (- a) div b"
  define r where "r = (- a) mod b"
  have "b * q + r = - a" unfolding q_def r_def by (rule mult_div_mod_eq)
  moreover have "0 \<le> r" "r < b" using assms by (simp_all add: r_def)
  ultimately show "b * (ceil_div a b - 1) < a" and "a \<le> b * ceil_div a b"
    unfolding ceil_div_def q_def [symmetric] by (simp_all add: algebra_simps)
qed

lemma split_loop_fst:
  "map fst (split_loop buffer c n i) = [i..n - 1]"
proof (induction buffer c n i rule: split_loop.induct)
  case (1 buffer c n i)
  show ?case
  proof (cases "i < n")
    case True
    then show ?thesis using 1 by (subst split_loop.simps) (simp add: Let_def upto_rec1)
  next
    case False
    then show ?thesis by (subst split_loop.simps) simp
  qed
qed

lemma split_loop_concat:
  "0 < c \<Longrightarrow> 0 \<le> i \<Longrightarrow> int (length buffer) \<le> c * n \<Longrightarrow>
   concat (map snd (split_loop buffer c n i)) = drop (nat (i * c)) buffer"
proof (induction buffer c n i rule: split_loop.induct)
  case (1 buffer c n i)
  show ?case
  proof (cases "i < n")
    case True
    have ih: "concat (map snd (split_loop buffer c n (i + 1))) = drop (nat ((i + 1) * c)) buffer"
      using 1 True by simp
    have "u8_slice buffer (i * c) (min (i * c + c) (int (length buffer))) @ drop (nat ((i + 1) * c)) buffer
        = drop (nat (i * c)) buffer"
    proof -
      have "i * c \<ge> 0" using 1 by simp
      show ?thesis
      proof (cases "i * c + c \<le> int (length buffer)")
        case True
        then have "u8_slice buffer (i * c) (min (i * c + c) (int (length buffer)))
            = take (nat c) (drop (nat (i * c)) buffer)"
          using \<open>i * c \<ge> 0\<close> 1(2) by (simp add: u8_slice_def Let_def min_def)
        moreover have "nat ((i + 1) * c) = nat c + nat (i * c)"
          using \<open>i * c \<ge> 0\<close> 1(2) by (simp add: algebra_simps nat_add_distrib)
        then have "drop (nat ((i + 1) * c)) buffer = drop (nat c) (drop (nat (i * c)) buffer)"
          by (simp only: drop_drop)
        ultimately show ?thesis by (simp only: append_take_drop_id)
      next
        case False
        then have "drop (nat ((i + 1) * c)) buffer = []"
          by (simp add: algebra_simps)
        moreover have "u8_slice buffer (i * c) (min (i * c + c) (int (length buffer)))
            = drop (nat (i * c)) buffer"
          using \<open>i * c \<ge> 0\<close> False by (auto simp add: u8_slice_def Let_def min_def)
        ultimately show ?thesis by simp
      qed
    qed
    then show ?thesis using True ih by (subst split_loop.simps) (simp add: Let_def)
  next
    case False
    then have "c * n \<le> c * i" using 1(2) by (intro mult_left_mono) simp_all
    then have "int (length buffer) \<le> i * c" using 1(4) by (simp add: mult.commute)
    then show ?thesis using False by (subst split_loop.simps) simp
  qed
qed


lemma split_chunks_roundtrip:
  assumes "0 < c"
  shows "reassemble (split_chunks P c) = Some P"
proof -
  let ?n = "ceil_div (int (length P)) c"
  have idx: "map fst (split_chunks P c) = [0..?n - 1]"
    by (simp add: split_chunks_def split_loop_fst)
  then have "sorted (map fst (split_chunks P c))" by simp
  then have "sort_key fst (split_chunks P c) = split_chunks P c"
    by (rule sort_key_id_if_sorted)
  moreover have "concat (map snd (split_chunks P c)) = P"
    using split_loop_concat [of c 0 P ?n] ceil_div_bounds(2) [OF assms, of "int (length P)"] assms
    by (simp add: split_chunks_def)
  ultimately show ?thesis by (simp add: reassemble_def combine_concat)
qed

lemma split_loop_last:
  "0 < c \<Longrightarrow> 0 \<le> i \<Longrightarrow> i < n \<Longrightarrow>
   snd (last (split_loop buffer c n i)) =
     u8_slice buffer ((n - 1) * c) (min ((n - 1) * c + c) (int (length buffer)))"
proof (induction buffer c n i rule: split_loop.induct)
  case (1 buffer c n i)
  show ?case
  proof (cases "i + 1 < n")
    case True
    then have "split_loop buffer c n (i + 1) \<noteq> []"
      by (subst split_loop.simps) (simp add: Let_def)
    then show ?thesis using 1 True
      by (subst split_loop.simps) (simp add: Let_def)
  next
    case False
    then have "i = n - 1" using 1 by simp
    moreover have "split_loop buffer c n (i + 1) = []"
      using False by (subst split_loop.simps) simp
    ultimately show ?thesis using 1
      by (subst split_loop.simps) (simp add: Let_def)
  qed
qed

lemma last_chunk_length:
  assumes "0 < c" "P \<noteq> []"
  shows "int (length (snd (last (split_chunks P c)))) =
           int (length P) - c * (ceil_div (int (length P)) c - 1)"
proof -
  let ?n = "ceil_div (int (length P)) c"
  have pos: "0 < ?n"
  proof (rule ccontr)
    assume "\<not> 0 < ?n"
    then have "c * ?n \<le> 0" using assms(1) by (simp add: mult_le_0_iff)
    moreover have "0 < int (length P)" using assms(2) by simp
    ultimately show False using ceil_div_bounds(2) [OF assms(1), of "int (length P)"] by linarith
  qed
  have lo: "c * (?n - 1) < int (length P)" and hi: "int (length P) \<le> c * ?n"
    using ceil_div_bounds [OF assms(1)] by simp_all
  have nn: "0 \<le> (?n - 1) * c" using pos assms(1) by simp
  have "snd (last (split_chunks P c)) =
      u8_slice P ((?n - 1) * c) (min ((?n - 1) * c + c) (int (length P)))"
    unfolding split_chunks_def using split_loop_last [of c 0 ?n P] assms(1) pos by simp
  moreover have "min ((?n - 1) * c + c) (int (length P)) = int (length P)"
    using hi by (simp add: algebra_simps)
  ultimately have "snd (last (split_chunks P c)) = drop (nat ((?n - 1) * c)) P"
    using nn lo by (simp add: u8_slice_def Let_def algebra_simps)
  then show ?thesis using lo nn by (simp add: algebra_simps)
qed


lemma split_loop_full_chunks:
  "0 < c \<Longrightarrow> 0 \<le> i \<Longrightarrow> (j, d) \<in> set (split_loop buffer c n i) \<Longrightarrow>
   (j + 1) * c \<le> int (length buffer) \<Longrightarrow> int (length d) = c"
proof (induction buffer c n i rule: split_loop.induct)
  case (1 buffer c n i)
  from 1(4) have mem: "i < n \<and> ((j, d) = (i, u8_slice buffer (i * c) (min (i * c + c) (int (length buffer))))
      \<or> (j, d) \<in> set (split_loop buffer c n (i + 1)))"
    by (subst (asm) split_loop.simps) (auto simp add: Let_def split: if_splits)
  then show ?case
  proof (elim conjE disjE)
    assume "i < n" and eq: "(j, d) = (i, u8_slice buffer (i * c) (min (i * c + c) (int (length buffer))))"
    have "0 \<le> i * c" using 1(2,3) by simp
    moreover have "i * c + c \<le> int (length buffer)" using 1(5) eq by (simp add: algebra_simps)
    ultimately have "d = take (nat c) (drop (nat (i * c)) buffer)"
      and "nat c \<le> length buffer - nat (i * c)"
      using eq 1(2) by (simp_all add: u8_slice_def Let_def min_def)
    then show ?thesis using 1(2) by (simp add: min_def)
  next
    assume "i < n" and "(j, d) \<in> set (split_loop buffer c n (i + 1))"
    then show ?thesis using 1 by simp
  qed
qed

text \<open>
  Claim C2. For every payload \<open>P\<close> and positive chunk size \<open>C\<close>, splitting \<open>P\<close> into
  consecutive chunks and combining the chunk records in \<^verbatim>\<open>chunk_index\<close> order returns
  exactly \<open>P\<close>; the chunk indices are \<open>0, \<dots>, chunk_count - 1\<close> with
  \<open>chunk_count = \<lceil>length P / C\<rceil>\<close>, every chunk that lies wholly inside the payload has
  \<open>C\<close> bytes, and the last chunk has \<open>length P - C * (chunk_count - 1)\<close> bytes.
\<close>

theorem chunk_roundtrip:
  assumes "0 < C"
  shows "reassemble (split_chunks P C) = Some P
       \<and> map fst (split_chunks P C) = [0..ceil_div (int (length P)) C - 1]
       \<and> int (length (split_chunks P C)) = \<lceil>real (length P) / real_of_int C\<rceil>
       \<and> (\<forall>(i, d) \<in> set (split_chunks P C).
             (i + 1) * C \<le> int (length P) \<longrightarrow> int (length d) = C)
       \<and> (P \<noteq> [] \<longrightarrow>
            int (length (snd (last (split_chunks P C)))) =
              int (length P) - C * (int (length (split_chunks P C)) - 1))"
proof -
  let ?n = "ceil_div (int (length P)) C"
  have idx: "map fst (split_chunks P C) = [0..?n - 1]"
    by (simp add: split_chunks_def split_loop_fst)
  have "0 \<le> C * ?n" using ceil_div_bounds(2) [OF assms, of "int (length P)"] by linarith
  then have nonneg: "0 \<le> ?n" using assms by (simp add: zero_le_mult_iff)
  have "length (map fst (split_chunks P C)) = nat ?n" unfolding idx by simp
  then have len: "int (length (split_chunks P C)) = ?n" using nonneg by simp
  have ceil: "?n = \<lceil>real (length P) / real_of_int C\<rceil>"
    using ceiling_divide_eq_div [of "int (length P)" C, where ?'a = real]
    by (simp add: ceil_div_def)
  have full: "\<forall>(i, d) \<in> set (split_chunks P C).
             (i + 1) * C \<le> int (length P) \<longrightarrow> int (length d) = C"
    unfolding split_chunks_def using split_loop_full_chunks [OF assms, of 0] by auto
  show ?thesis
    using split_chunks_roundtrip [OF assms] idx len ceil full last_chunk_length [OF assms]
    by simp
qed

theorem chunk_roundtrip_witness:
  "(0::int) < 2
   \<and> reassemble (split_chunks [1, 2, 3, 4, 5] 2) = Some [1, 2, 3, 4, 5]
   \<and> map fst (split_chunks [1, 2, 3, 4, 5] 2) = [0, 1, 2]
   \<and> map snd (split_chunks [1, 2, 3, 4, 5] 2) = [[1, 2], [3, 4], [5]]
   \<and> int (length (snd (last (split_chunks [1, 2, 3, 4, 5] 2)))) = 5 - 2 * (3 - 1)"
proof -
  have split: "split_chunks [1, 2, 3, 4, 5] 2 = [(0, [1, 2]), (1, [3, 4]), (2, [5 :: byte])]"
    by (simp add: split_chunks_def ceil_div_def split_loop.simps u8_slice_def)
  show ?thesis using chunk_roundtrip [of 2 "[1, 2, 3, 4, 5]"] split by simp
qed


section \<open>Range reads\<close>


lemma range_loop_append:
  "range_loop tg (xs @ ys) parts =
     (case range_loop tg xs parts of Inl r \<Rightarrow> Inl r | Inr parts' \<Rightarrow> range_loop tg ys parts')"
  by (induction xs arbitrary: parts) (auto split: sum.splits)











lemma stream_range_response:
  assumes live: "select_live_file d fid uid = Some file"
    and rows: "select_chunks d fid \<noteq> []"
    and hdr: "range_header \<noteq> []" "parseRange range_header (file_size file) = (start, end)"
    and miss: "shouldCache (mime_type file) \<longrightarrow> cache (getCacheKey fid 0 (Some (start, end))) = None"
    and parts: "range_loop tg (find_needed (select_chunks d fid) 0 start end) [] = Inr parts"
  shows "fst (stream d tg cache uid fid (Some range_header)) =
     Binary 206
       [(''Content-Type'', content_type (mime_type file)),
        (''Content-Range'', ''bytes '' @ toString start @ ''-'' @ toString end
                              @ ''/'' @ toString (file_size file)),
        (''Accept-Ranges'', ''bytes''),
        (''Content-Length'', toString (int (length (concat parts))))]
       (concat parts)"
  using assms
  by (simp add: stream_def Let_def truthy_str_def combine_concat)


subsection \<open>Facts about the small deployment\<close>

lemma ex_rows:
  "select_chunks ex_db ''f1'' =
     [join_bot (ex_chunk 0 2 ''b1'' ''-1001'' ''x0'' 11) ex_bot1,
      join_bot (ex_chunk 1 2 ''b2'' ''-1002'' ''x1'' 12) ex_bot2,
      join_bot (ex_chunk 2 1 ''b1'' ''-1001'' ''x2'' 13) ex_bot1]"
  by (simp add: select_chunks_def ex_db_def join_active_def ex_chunk_def ex_bot1_def ex_bot2_def
      join_bot_def)

lemma ex_download:
  "downloadFile ex_tg tok ''x0'' = Inr [1, 2]"
  "downloadFile ex_tg tok ''x1'' = Inr [3, 4]"
  "downloadFile ex_tg tok ''x2'' = Inr [5]"
  by (simp_all add: downloadFile_def downloadFile_try_def getFile_def ex_tg_def ex_remote_def
      ex_getFile_def ex_fetch_def getFileUrl_def)

lemma ex_live: "select_live_file ex_db ''f1'' ''u1'' = Some ex_file"
  by (simp add: select_live_file_def ex_db_def ex_file_def)

lemma toString_digit: "0 \<le> i \<Longrightarrow> i < 10 \<Longrightarrow> toString i = [digit_char (nat i)]"
  by (simp add: toString_def digits_of.simps)



lemma ex_content_type: "content_type (mime_type ex_file) = ''application/octet-stream''"
  by (simp add: content_type_def or_null_def truthy_str_def ex_file_def)







section \<open>The range header\<close>















lemma stream_loop_all:
  "list_all2 (fetched tg) rows datas \<Longrightarrow> stream_loop tg rows bufs = Inr (bufs @ datas)"
  by (induction rows datas arbitrary: bufs rule: list_all2_induct) (auto simp add: fetched_def)

lemma stream_plain_response:
  assumes live: "select_live_file d fid uid = Some file"
    and rows: "select_chunks d fid \<noteq> []"
    and hdr: "\<not> truthy_str range_header"
    and miss: "shouldCache (mime_type file) \<longrightarrow> cache (getCacheKey fid 0 None) = None"
    and fetched: "list_all2 (fetched tg) (select_chunks d fid) datas"
  shows "fst (stream d tg cache uid fid range_header) =
     Binary 200
       [(''Content-Type'', content_type (mime_type file)),
        (''Content-Length'', toString (int (length (concat datas)))),
        (''Accept-Ranges'', ''bytes'')]
       (concat datas)"
  using live rows hdr miss stream_loop_all [OF fetched, of "[]"]
  by (simp add: stream_def Let_def combine_concat)










section \<open>Chunks on unavailable backends\<close>

lemma fetch_chunk_direct:
  "directly_fetched tg chunk data \<Longrightarrow> fetch_chunk tg d fid chunk = (Inr data, d)"
  by (auto simp add: directly_fetched_def fetch_chunk_def split: sum.splits)

lemma download_loop_direct:
  "list_all2 (directly_fetched tg) rows datas \<Longrightarrow>
   download_loop tg fid rows bufs d = (Inr (bufs @ datas), d)"
  by (induction rows datas arbitrary: bufs rule: list_all2_induct)
     (simp_all add: fetch_chunk_direct)

lemma download_available:
  assumes "select_live_file d fid uid = Some file"
    and "select_chunks d fid \<noteq> []"
    and "list_all2 (directly_fetched tg) (select_chunks d fid) datas"
  shows "download d tg uid fid =
     (Binary 200
        [(''Content-Type'', content_type (mime_type file)),
         (''Content-Disposition'',
            ''attachment; filename='' @ [CHR 0x22] @ file_name file @ [CHR 0x22]),
         (''Content-Length'', toString (int (length (concat datas))))]
        (concat datas), d)"
  using assms(1,2) download_loop_direct [OF assms(3), of fid "[]" d]
  by (simp add: download_def Let_def combine_concat)

text \<open>
  Whatever chunk records the file has on deactivated or channel-less bots, the handlers
  read the remaining rows alone: the whole-file answers are the concatenation of the rows
  that the chunk query returns.
\<close>

lemma read_skips_unavailable_chunks:
  assumes "select_live_file d fid uid = Some file"
    and "list_all2 (directly_fetched tg) (select_chunks d fid) datas"
    and "list_all2 (fetched tg) (select_chunks d fid) datas"
    and "0 < length (select_chunks d fid)"
    and "int (length (select_chunks d fid)) < count_chunks d fid"
    and "\<not> shouldCache (mime_type file)"
  shows "body_of (fst (download d tg uid fid)) = Some (concat datas)"
    and "status_of (fst (download d tg uid fid)) = 200"
    and "body_of (fst (stream d tg cache uid fid None)) = Some (concat datas)"
    and "status_of (fst (stream d tg cache uid fid None)) = 200"
proof -
  have ne: "select_chunks d fid \<noteq> []" using assms(4) by auto
  show "body_of (fst (download d tg uid fid)) = Some (concat datas)"
    and "status_of (fst (download d tg uid fid)) = 200"
    using download_available [OF assms(1) ne assms(2)] by simp_all
  have "\<not> truthy_str None" by (simp add: truthy_str_def)
  then show "body_of (fst (stream d tg cache uid fid None)) = Some (concat datas)"
    and "status_of (fst (stream d tg cache uid fid None)) = 200"
    using stream_plain_response [OF assms(1) ne _ _ assms(3), of None cache] assms(6)
    by simp_all
qed

lemma ex_inactive_rows:
  "select_chunks ex_db_inactive ''f1'' =
     [join_bot (ex_chunk 0 2 ''b1'' ''-1001'' ''x0'' 11) ex_bot1,
      join_bot (ex_chunk 2 1 ''b1'' ''-1001'' ''x2'' 13) ex_bot1]"
  by (simp add: select_chunks_def ex_db_inactive_def ex_db_def join_active_def ex_chunk_def
      ex_bot1_def ex_bot2_def join_bot_def)

lemma ex_inactive_live: "select_live_file ex_db_inactive ''f1'' ''u1'' = Some ex_file"
  by (simp add: select_live_file_def ex_db_inactive_def ex_db_def ex_file_def)

lemma ex_file_fields:
  "mime_type ex_file = None" "file_name ex_file = ''a.bin''" "file_size ex_file = 5"
  by (simp_all add: ex_file_def)

lemma ex_bot_info: "getBotInfo ex_tg tok = Inr (7, ''store_bot'', ''bot'')"
  by (simp add: getBotInfo_def validateBotToken_def ex_tg_def ex_remote_def)

lemma ex_trim: "trim ''tokA'' = ''tokA''" "trim ''tokB'' = ''tokB''"
  by (simp_all add: trim_def is_space_def)

text \<open>
  Claim C3 (the code diverges). The claim asks that a read needing a chunk on a
  deactivated bot fails. On the small deployment with the second bot deactivated, the
  chunk query drops the middle chunk and the handlers answer from the two remaining rows:
  the download and the full stream return the three bytes \<open>[1, 2, 5]\<close> with status 200,
  and the range \<^verbatim>\<open>bytes=2-3\<close>, which lies in the missing chunk, returns the byte \<open>[5]\<close>
  of the last chunk with status 206.
\<close>

theorem inactive_backend_read:
  "count_chunks ex_db_inactive ''f1'' = 3
   \<and> map cj_chunk_index (select_chunks ex_db_inactive ''f1'') = [0, 2]
   \<and> fst (download ex_db_inactive ex_tg ''u1'' ''f1'') =
       Binary 200
         [(''Content-Type'', ''application/octet-stream''),
          (''Content-Disposition'', ''attachment; filename='' @ [CHR 0x22] @ ''a.bin'' @ [CHR 0x22]),
          (''Content-Length'', ''3'')]
         [1, 2, 5]
   \<and> fst (stream ex_db_inactive ex_tg no_cache ''u1'' ''f1'' None) =
       Binary 200
         [(''Content-Type'', ''application/octet-stream''),
          (''Content-Length'', ''3''),
          (''Accept-Ranges'', ''bytes'')]
         [1, 2, 5]
   \<and> fst (stream ex_db_inactive ex_tg no_cache ''u1'' ''f1'' (Some ''bytes=2-3'')) =
       Binary 206
         [(''Content-Type'', ''application/octet-stream''),
          (''Content-Range'', ''bytes 2-3/5''),
          (''Accept-Ranges'', ''bytes''),
          (''Content-Length'', ''1'')]
         [5]"
proof -
  have count: "count_chunks ex_db_inactive ''f1'' = 3"
    by (simp add: count_chunks_def ex_db_inactive_def ex_db_def ex_chunk_def)
  have idx: "map cj_chunk_index (select_chunks ex_db_inactive ''f1'') = [0, 2]"
    by (simp add: ex_inactive_rows join_bot_def ex_chunk_def)
  have ne: "select_chunks ex_db_inactive ''f1'' \<noteq> []" by (simp add: ex_inactive_rows)
  have direct: "list_all2 (directly_fetched ex_tg) (select_chunks ex_db_inactive ''f1'') [[1, 2], [5]]"
    by (simp add: ex_inactive_rows directly_fetched_def join_bot_def ex_chunk_def ex_bot1_def
        ex_download ex_bot_info ex_trim)
  have fetched: "list_all2 (fetched ex_tg) (select_chunks ex_db_inactive ''f1'') [[1, 2], [5]]"
    by (simp add: ex_inactive_rows fetched_def join_bot_def ex_chunk_def ex_download)
  have dl: "fst (download ex_db_inactive ex_tg ''u1'' ''f1'') =
       Binary 200
         [(''Content-Type'', ''application/octet-stream''),
          (''Content-Disposition'', ''attachment; filename='' @ [CHR 0x22] @ ''a.bin'' @ [CHR 0x22]),
          (''Content-Length'', ''3'')]
         [1, 2, 5]"
    using download_available [OF ex_inactive_live ne direct]
    by (simp add: ex_content_type toString_digit digit_char_def ex_file_fields(2,3))
  have st: "fst (stream ex_db_inactive ex_tg no_cache ''u1'' ''f1'' None) =
       Binary 200
         [(''Content-Type'', ''application/octet-stream''),
          (''Content-Length'', ''3''),
          (''Accept-Ranges'', ''bytes'')]
         [1, 2, 5]"
    using stream_plain_response [OF ex_inactive_live ne _ _ fetched, of None no_cache]
    by (simp add: truthy_str_def no_cache_def ex_content_type toString_digit digit_char_def)
  have pr: "parseRange ''bytes=2-3'' (file_size ex_file) = (2, 3)"
    by (simp add: parseRange_def match_here_def startsWith_def is_digit_def parseInt_def
        digit_val_def ex_file_def)
  have run: "range_loop ex_tg (find_needed (select_chunks ex_db_inactive ''f1'') 0 2 3) [] = Inr [[5]]"
    by (simp add: ex_inactive_rows join_bot_def ex_chunk_def ex_download u8_slice_def)
  have rg: "fst (stream ex_db_inactive ex_tg no_cache ''u1'' ''f1'' (Some ''bytes=2-3'')) =
       Binary 206
         [(''Content-Type'', ''application/octet-stream''),
          (''Content-Range'', ''bytes 2-3/5''),
          (''Accept-Ranges'', ''bytes''),
          (''Content-Length'', ''1'')]
         [5]"
    using stream_range_response [where cache = no_cache and uid = "''u1''",
        OF ex_inactive_live ne _ pr _ run]
    by (simp add: no_cache_def ex_content_type toString_digit digit_char_def ex_file_fields(2,3))
  show ?thesis using count idx dl st rg by simp
qed


section \<open>Backend selection\<close>

lemma set_insert_desc: "set (insert_desc b xs) = insert b (set xs)"
  by (induction xs) auto

lemma length_insert_desc: "length (insert_desc b xs) = Suc (length xs)"
  by (induction xs) auto

lemma checked_before_total: "checked_before a b \<or> checked_before b a"
  by (auto simp add: checked_before_def check_ge_def split: option.splits)

lemma checked_before_trans: "checked_before a b \<Longrightarrow> checked_before b c \<Longrightarrow> checked_before a c"
  by (auto simp add: checked_before_def check_ge_def split: option.splits)

lemma sorted_insert_desc:
  "sorted_wrt checked_before xs \<Longrightarrow> sorted_wrt checked_before (insert_desc b xs)"
proof (induction xs)
  case Nil
  then show ?case by simp
next
  case (Cons x xs)
  show ?case
  proof (cases "checked_before b x")
    case True
    then have "\<forall>y \<in> set xs. checked_before b y"
      using Cons.prems checked_before_trans by auto
    then show ?thesis using True Cons.prems by (simp add: checked_before_def)
  next
    case False
    then have "checked_before x b" using checked_before_total by blast
    then show ?thesis using False Cons by (auto simp add: checked_before_def set_insert_desc)
  qed
qed

lemma order_by_health_check_desc_props:
  "set (order_by_health_check_desc rows) = set rows"
  "length (order_by_health_check_desc rows) = length rows"
  "sorted_wrt checked_before (order_by_health_check_desc rows)"
  by (induction rows)
     (simp_all add: order_by_health_check_desc_def set_insert_desc length_insert_desc
        sorted_insert_desc)

lemma js_rem_nonneg:
  assumes "0 \<le> i" "0 < n"
  shows "js_rem i (int n) = int (nat i mod n)"
  using assms by (simp add: js_rem_def zmod_int)

lemma array_get_round_robin:
  assumes "0 \<le> i" "pool \<noteq> []"
  shows "array_get pool (js_rem i (int (length pool))) = Some (pool ! (nat i mod length pool))"
  using assms by (simp add: js_rem_nonneg array_get_def)

lemma select_bot_pool:
  assumes "0 \<le> i" "select_healthy_bots d uid \<noteq> []"
  shows "select_bot d uid i =
     Inr (Some (select_healthy_bots d uid ! (nat i mod length (select_healthy_bots d uid))))"
  using assms by (simp add: select_bot_def Let_def array_get_round_robin)

lemma select_bot_empty:
  "select_healthy_bots d uid = [] \<Longrightarrow>
   select_bot d uid i = Inl (Json 400 [(''error'', JStr ''No active bots found'')])"
  by (simp add: select_bot_def)

lemma bot_assignments_round_robin:
  assumes "pool \<noteq> []"
  shows "bot_assignments pool n =
     map (\<lambda>k. JObj [(''chunk_index'', JNum k),
                     (''bot_id'', JStr (bot_id (pool ! (nat k mod length pool))))])
       [0..n - 1]"
  using assms by (auto simp add: bot_assignments_def js_rem_nonneg)

lemma select_bot_error_status: "select_bot d uid i = Inl r \<Longrightarrow> status_of r \<noteq> 200"
  by (auto simp add: select_bot_def Let_def split: if_splits)

text \<open>What a successful chunk upload has done.\<close>

lemma upload_chunk_success:
  assumes ok: "status_of (fst (upload_chunk d tg atob uid rq now)) = 200"
  obtains fid idx cdata chash frow selected chunkBuffer msg_id ref
  where "rq_file_id rq = Some fid" "rq_chunk_index rq = Some idx"
    and "rq_chunk_data rq = Some cdata" "rq_chunk_hash rq = Some chash"
    and "truthy_str (Some fid)" "truthy_str (Some cdata)" "truthy_str (Some chash)"
    and "select_file d fid uid = Some frow" "idx < chunk_count frow"
    and "select_bot d uid idx = Inr (Some selected)" "truthy_str (bot_channel_id selected)"
    and "atob cdata = Some chunkBuffer"
    and "sendDocument tg (bot_token_enc selected) (the (bot_channel_id selected)) chunkBuffer
           (''chunk_'' @ toString idx @ ''.bin'') = Inr (msg_id, ref)"
    and "\<not> list_ex (\<lambda>c. chunk_id c = ''chunk_'' @ fid @ ''_'' @ toString idx) (chunks d)"
    and "records_at d fid idx = []"
    and "upload_chunk d tg atob uid rq now =
           (Json 200 [(''success'', JBool True), (''chunk_index'', JNum idx),
                      (''message_id'', JNum msg_id), (''file_id'', JStr ref)],
            d\<lparr>chunks := chunks d @
               [\<lparr> chunk_id = ''chunk_'' @ fid @ ''_'' @ toString idx,
                  chunk_file_id = fid, chunk_index = idx,
                  chunk_size = int (length chunkBuffer), chunk_hash = chash,
                  chunk_bot_id = bot_id selected, telegram_message_id = msg_id,
                  telegram_file_id = ref, channel_id = the (bot_channel_id selected),
                  chunk_created_at = now \<rparr>]\<rparr>)"
proof -
  have present: "\<not> (\<not> truthy_str (rq_file_id rq) \<or> rq_chunk_index rq = None
         \<or> \<not> truthy_str (rq_chunk_data rq) \<or> \<not> truthy_str (rq_chunk_hash rq))"
    using ok by (rule_tac ccontr) (simp add: upload_chunk_def)
  then obtain fid idx cdata chash where rq: "rq_file_id rq = Some fid" "rq_chunk_index rq = Some idx"
      "rq_chunk_data rq = Some cdata" "rq_chunk_hash rq = Some chash"
    by (auto simp add: truthy_str_def split: option.splits)
  have tr: "truthy_str (Some fid)" "truthy_str (Some cdata)" "truthy_str (Some chash)"
    using present rq by simp_all
  note unfold = upload_chunk_def rq tr
  obtain frow where found: "select_file d fid uid = Some frow"
    using ok by (cases "select_file d fid uid") (simp_all add: unfold)
  have bound: "idx < chunk_count frow"
    using ok by (rule_tac ccontr) (simp add: unfold found)
  obtain picked where sel0: "select_bot d uid idx = Inr picked"
    using ok bound
    by (cases "select_bot d uid idx") (auto simp add: unfold found dest: select_bot_error_status)
  obtain selected where sel1: "picked = Some selected"
    using ok bound
    by (cases picked) (simp_all add: unfold found sel0 upload_failed_def)
  have chan: "truthy_str (bot_channel_id selected)"
    using ok bound by (rule_tac ccontr) (simp add: unfold found sel0 sel1)
  note sel = sel0 [unfolded sel1] chan
  obtain chunkBuffer where dec: "atob cdata = Some chunkBuffer"
    using ok bound
    by (cases "atob cdata") (simp_all add: unfold found sel upload_failed_def)
  obtain msg_id ref where sent: "sendDocument tg (bot_token_enc selected)
      (the (bot_channel_id selected)) chunkBuffer (''chunk_'' @ toString idx @ ''.bin'') = Inr (msg_id, ref)"
    using ok bound
    by (cases "sendDocument tg (bot_token_enc selected)
      (the (bot_channel_id selected)) chunkBuffer (''chunk_'' @ toString idx @ ''.bin'')")
       (auto simp add: unfold found sel dec upload_failed_def simp del: append.simps)
  let ?row = "\<lparr> chunk_id = ''chunk_'' @ fid @ ''_'' @ toString idx,
       chunk_file_id = fid, chunk_index = idx, chunk_size = int (length chunkBuffer),
       chunk_hash = chash, chunk_bot_id = bot_id selected, telegram_message_id = msg_id,
       telegram_file_id = ref, channel_id = the (bot_channel_id selected),
       chunk_created_at = now \<rparr>"
  obtain d' where ins: "insert_chunk d ?row = Inr d'"
    using ok bound
    by (cases "insert_chunk d ?row")
       (simp_all add: unfold found sel dec sent upload_failed_def Let_def del: append.simps)
  have res: "upload_chunk d tg atob uid rq now =
      (Json 200 [(''success'', JBool True), (''chunk_index'', JNum idx),
                 (''message_id'', JNum msg_id), (''file_id'', JStr ref)], d')"
    using bound by (simp add: unfold found sel dec sent ins Let_def del: append.simps)
  from ins have d': "d' = d\<lparr>chunks := chunks d @ [?row]\<rparr>"
    and fresh: "\<not> list_ex (\<lambda>c. chunk_id c = ''chunk_'' @ fid @ ''_'' @ toString idx) (chunks d)"
    and uniq: "\<not> list_ex (\<lambda>c. chunk_file_id c = fid \<and> chunk_index c = idx) (chunks d)"
    by (simp_all add: insert_chunk_def del: append.simps split: if_splits)
  have "records_at d fid idx = []"
    using uniq by (simp add: records_at_def list_ex_iff filter_empty_conv)
  then show ?thesis
    using that [OF rq tr found bound sel dec sent fresh _ res [unfolded d']] by blast
qed

text \<open>
  Claim C8. The backend pool of an owner consists of the owner's bots that are active and
  healthy, ordered by \<^verbatim>\<open>last_health_check\<close> descending. For a chunk index \<open>i \<ge> 0\<close> the
  selection of the chunk upload is the pool element at \<open>i mod N\<close>, the same in every
  database state with the same bots table; the init call
  plans the same assignment, and a successful chunk upload records that bot. With an
  empty pool the selection fails with status 400 (\<^verbatim>\<open>No active bots found\<close>).
\<close>

theorem select_bot_round_robin:
  assumes "0 \<le> i" and "pool = select_healthy_bots d uid"
  shows "set pool = {b \<in> set (bots d). bot_user_id b = uid \<and> is_active b = 1
                       \<and> health_status b = Some ''healthy''}
       \<and> sorted_wrt checked_before pool
       \<and> (pool = [] \<longrightarrow>
            select_bot d uid i = Inl (Json 400 [(''error'', JStr ''No active bots found'')]))
       \<and> (pool \<noteq> [] \<longrightarrow> select_bot d uid i = Inr (Some (pool ! (nat i mod length pool))))
       \<and> (bots d' = bots d \<longrightarrow> select_bot d' uid i = select_bot d uid i)
       \<and> (pool \<noteq> [] \<longrightarrow>
            bot_assignments pool n =
              map (\<lambda>k. JObj [(''chunk_index'', JNum k),
                              (''bot_id'', JStr (bot_id (pool ! (nat k mod length pool))))])
                [0..n - 1])
       \<and> (rq_chunk_index rq = Some i
            \<and> status_of (fst (upload_chunk d tg atob uid rq now)) = 200 \<longrightarrow>
            chunk_bot_id (last (chunks (snd (upload_chunk d tg atob uid rq now))))
              = bot_id (pool ! (nat i mod length pool)))"
proof -
  have members: "set pool = {b \<in> set (bots d). bot_user_id b = uid \<and> is_active b = 1
                       \<and> health_status b = Some ''healthy''}"
    unfolding assms(2) select_healthy_bots_def
    by (auto simp add: order_by_health_check_desc_props(1))
  have ordered: "sorted_wrt checked_before pool"
    unfolding assms(2) select_healthy_bots_def by (rule order_by_health_check_desc_props(3))
  have empty: "pool = [] \<longrightarrow>
      select_bot d uid i = Inl (Json 400 [(''error'', JStr ''No active bots found'')])"
    using select_bot_empty assms(2) by simp
  have pick: "pool \<noteq> [] \<longrightarrow> select_bot d uid i = Inr (Some (pool ! (nat i mod length pool)))"
    using select_bot_pool [OF assms(1), of d uid] assms(2) by simp
  have stable: "bots d' = bots d \<longrightarrow> select_bot d' uid i = select_bot d uid i"
    by (simp add: select_bot_def select_healthy_bots_def)
  have plan: "pool \<noteq> [] \<longrightarrow>
      bot_assignments pool n =
        map (\<lambda>k. JObj [(''chunk_index'', JNum k),
                        (''bot_id'', JStr (bot_id (pool ! (nat k mod length pool))))])
          [0..n - 1]"
    using bot_assignments_round_robin by blast
  have stored: "rq_chunk_index rq = Some i
        \<and> status_of (fst (upload_chunk d tg atob uid rq now)) = 200 \<longrightarrow>
      chunk_bot_id (last (chunks (snd (upload_chunk d tg atob uid rq now))))
        = bot_id (pool ! (nat i mod length pool))"
  proof
    assume a: "rq_chunk_index rq = Some i
        \<and> status_of (fst (upload_chunk d tg atob uid rq now)) = 200"
    then obtain selected where sel: "select_bot d uid i = Inr (Some selected)"
      and bot: "chunk_bot_id (last (chunks (snd (upload_chunk d tg atob uid rq now)))) = bot_id selected"
    proof -
      from a have ok: "status_of (fst (upload_chunk d tg atob uid rq now)) = 200" by simp
      show ?thesis
      proof (rule upload_chunk_success [OF ok])
        fix fid idx cdata chash frow selected chunkBuffer msg_id ref
        assume idx: "rq_chunk_index rq = Some idx"
          and sel: "select_bot d uid idx = Inr (Some selected)"
          and res: "upload_chunk d tg atob uid rq now =
           (Json 200 [(''success'', JBool True), (''chunk_index'', JNum idx),
                      (''message_id'', JNum msg_id), (''file_id'', JStr ref)],
            d\<lparr>chunks := chunks d @
               [\<lparr> chunk_id = ''chunk_'' @ fid @ ''_'' @ toString idx,
                  chunk_file_id = fid, chunk_index = idx,
                  chunk_size = int (length chunkBuffer), chunk_hash = chash,
                  chunk_bot_id = bot_id selected, telegram_message_id = msg_id,
                  telegram_file_id = ref, channel_id = the (bot_channel_id selected),
                  chunk_created_at = now \<rparr>]\<rparr>)"
        have "idx = i" using idx a by simp
        then show ?thesis using that [of selected] sel by (simp add: res)
      qed
    qed
    have "pool \<noteq> []" using sel empty by auto
    then have "selected = pool ! (nat i mod length pool)"
      using pick sel by simp
    then show "chunk_bot_id (last (chunks (snd (upload_chunk d tg atob uid rq now))))
        = bot_id (pool ! (nat i mod length pool))"
      using bot by simp
  qed
  show ?thesis using members ordered empty pick stable plan stored by blast
qed

lemma ex_pool2: "select_healthy_bots ex_db2 ''u1'' = [ex_bot1, ex_bot2]"
  by (simp add: select_healthy_bots_def order_by_health_check_desc_def ex_db2_def ex_db_def
      ex_bot1_def ex_bot2_def check_ge_def)

theorem select_bot_round_robin_witness:
  "(0::int) \<le> 3
   \<and> select_healthy_bots ex_db2 ''u1'' = [ex_bot1, ex_bot2]
   \<and> select_bot ex_db2 ''u1'' 3 = Inr (Some ex_bot2)
   \<and> select_bot ex_db2 ''u1'' 0 = Inr (Some ex_bot1)
   \<and> select_bot (ex_db2\<lparr>bots := []\<rparr>) ''u1'' 3 =
       Inl (Json 400 [(''error'', JStr ''No active bots found'')])"
proof -
  have i: "(0::int) \<le> 3" "(0::int) \<le> 0" by simp_all
  have empty: "[] = select_healthy_bots (ex_db2\<lparr>bots := []\<rparr>) ''u1''"
    by (simp add: select_healthy_bots_def order_by_health_check_desc_def)
  have m: "nat 3 mod length [ex_bot1, ex_bot2] = Suc 0" "nat 0 mod length [ex_bot1, ex_bot2] = 0"
    by (simp_all add: eval_nat_numeral mod_Suc)
  have ne: "[ex_bot1, ex_bot2] \<noteq> []" by simp
  have a: "select_bot ex_db2 ''u1'' 3 = Inr (Some ex_bot2)"
    using select_bot_round_robin [OF i(1) ex_pool2 [symmetric],
        THEN conjunct2, THEN conjunct2, THEN conjunct2, THEN conjunct1] ne
    unfolding m by simp
  have b: "select_bot ex_db2 ''u1'' 0 = Inr (Some ex_bot1)"
    using select_bot_round_robin [OF i(2) ex_pool2 [symmetric],
        THEN conjunct2, THEN conjunct2, THEN conjunct2, THEN conjunct1] ne
    unfolding m by simp
  have c: "select_bot (ex_db2\<lparr>bots := []\<rparr>) ''u1'' 3 =
       Inl (Json 400 [(''error'', JStr ''No active bots found'')])"
    using select_bot_round_robin [OF i(1) empty,
        THEN conjunct2, THEN conjunct2, THEN conjunct1] by simp
  show ?thesis using a b c ex_pool2 by simp
qed



section \<open>Repeating a chunk upload\<close>

lemma upload_chunk_unchanged:
  "status_of (fst (upload_chunk d tg atob uid rq now)) \<noteq> 200 \<Longrightarrow>
   snd (upload_chunk d tg atob uid rq now) = d"
  by (auto simp add: upload_chunk_def Let_def split: option.splits sum.splits if_splits)




lemma ex_upload_any:
  assumes "files d = files ex_db2" "bots d = bots ex_db2"
  shows "upload_chunk d ex_tg ex_atob ''u1'' (ex_chunk_request idx) now =
     (if 1 \<le> idx then (Json 400 [(''error'', JStr ''Invalid chunk_index'')], d)
      else case array_get [ex_bot1, ex_bot2] (js_rem idx 2) of
        None \<Rightarrow> (upload_failed ''Cannot read properties of undefined (reading 'channel_id')'', d)
      | Some selected \<Rightarrow>
          (case insert_chunk d
                  \<lparr> chunk_id = ''chunk_f2_'' @ toString idx, chunk_file_id = ''f2'',
                    chunk_index = idx, chunk_size = 5, chunk_hash = ''c2'',
                    chunk_bot_id = bot_id selected, telegram_message_id = 21,
                    telegram_file_id = ''z0'', channel_id = the (bot_channel_id selected),
                    chunk_created_at = now \<rparr> of
             Inl e \<Rightarrow> (upload_failed e, d)
           | Inr d' \<Rightarrow>
               (Json 200 [(''success'', JBool True), (''chunk_index'', JNum idx),
                          (''message_id'', JNum 21), (''file_id'', JStr ''z0'')], d')))"
proof -
  have found: "select_file d ''f2'' ''u1'' = Some ex_file2"
    using assms(1) by (simp add: select_file_def ex_db2_def ex_file_def ex_file2_def)
  have cnt: "chunk_count ex_file2 = 1" by (simp add: ex_file2_def)
  have pool: "select_healthy_bots d ''u1'' = [ex_bot1, ex_bot2]"
    using ex_pool2 assms(2) by (simp add: select_healthy_bots_def)
  have chan: "truthy_str (bot_channel_id ex_bot1)" "truthy_str (bot_channel_id ex_bot2)"
    by (simp_all add: ex_bot1_def ex_bot2_def truthy_str_def)
  have sent: "\<And>tok chan buf name. sendDocument ex_tg tok chan buf name = Inr (21, ''z0'')"
    by (simp add: sendDocument_def ex_tg_def ex_remote_def)
  have get: "array_get [ex_bot1, ex_bot2] (js_rem idx 2) = None
      \<or> array_get [ex_bot1, ex_bot2] (js_rem idx 2) = Some ex_bot1
      \<or> array_get [ex_bot1, ex_bot2] (js_rem idx 2) = Some ex_bot2"
    by (auto simp add: array_get_def nth_Cons split: nat.splits)
  show ?thesis
    using get chan
    by (auto simp add: upload_chunk_def ex_chunk_request_def truthy_str_def found cnt
        select_bot_def pool ex_atob_def sent Let_def
        split: sum.splits)
qed

lemmas ex_upload_first = ex_upload_any [OF refl refl]






section \<open>The chunk index invariant\<close>

lemma upload_chunk_keeps_unique:
  assumes "unique_chunk_keys d"
  shows "unique_chunk_keys (snd (upload_chunk d tg atob uid rq now))"
proof (cases "status_of (fst (upload_chunk d tg atob uid rq now)) = 200")
  case False
  then show ?thesis using assms by (simp add: upload_chunk_unchanged)
next
  case True
  show ?thesis
  proof (rule upload_chunk_success [OF True])
    fix fid idx cdata chash selected chunkBuffer msg_id ref
    assume none: "records_at d fid idx = []"
      and res: "upload_chunk d tg atob uid rq now =
           (Json 200 [(''success'', JBool True), (''chunk_index'', JNum idx),
                      (''message_id'', JNum msg_id), (''file_id'', JStr ref)],
            d\<lparr>chunks := chunks d @
               [\<lparr> chunk_id = ''chunk_'' @ fid @ ''_'' @ toString idx,
                  chunk_file_id = fid, chunk_index = idx,
                  chunk_size = int (length chunkBuffer), chunk_hash = chash,
                  chunk_bot_id = bot_id selected, telegram_message_id = msg_id,
                  telegram_file_id = ref, channel_id = the (bot_channel_id selected),
                  chunk_created_at = now \<rparr>]\<rparr>)"
    have "(fid, idx) \<notin> set (map (\<lambda>c. (chunk_file_id c, chunk_index c)) (chunks d))"
      using none by (auto simp add: records_at_def filter_empty_conv)
    then show ?thesis using assms by (simp add: res unique_chunk_keys_def)
  qed
qed

lemma upload_chunk_below_count:
  assumes "status_of (fst (upload_chunk d tg atob uid rq now)) = 200"
  shows "\<exists>fid idx frow. rq_file_id rq = Some fid \<and> rq_chunk_index rq = Some idx
           \<and> select_file d fid uid = Some frow \<and> idx < chunk_count frow"
  by (rule upload_chunk_success [OF assms]) blast

lemma stored_indices_distinct:
  assumes "unique_chunk_keys d"
  shows "distinct (stored_indices d fid)"
proof -
  have "distinct (map (\<lambda>c. (chunk_file_id c, chunk_index c))
      (filter (\<lambda>c. chunk_file_id c = fid) (chunks d)))"
    using assms unfolding unique_chunk_keys_def by (simp add: distinct_map_filter)
  moreover have "map (\<lambda>c. (chunk_file_id c, chunk_index c))
      (filter (\<lambda>c. chunk_file_id c = fid) (chunks d))
      = map (\<lambda>c. (fid, chunk_index c)) (filter (\<lambda>c. chunk_file_id c = fid) (chunks d))"
    by (rule map_cong) auto
  ultimately have "distinct (map (\<lambda>c. (fid, chunk_index c))
      (filter (\<lambda>c. chunk_file_id c = fid) (chunks d)))"
    by simp
  then have "distinct (map (Pair fid) (stored_indices d fid))"
    by (simp add: stored_indices_def comp_def)
  then show ?thesis by (simp add: distinct_map)
qed

text \<open>
  With the key constraint, a completed upload whose stored indices are all non-negative
  and below the chunk count holds exactly the range \<open>[0, chunk_count)\<close>.
\<close>

lemma complete_contiguous_if_in_range:
  assumes "unique_chunk_keys d"
    and "status_of (fst (upload_complete d uid (Some fid) now)) = 200"
    and "select_file d fid uid = Some frow"
    and "\<forall>i \<in> set (stored_indices d fid). 0 \<le> i \<and> i < chunk_count frow"
  shows "set (stored_indices d fid) = {0 ..< chunk_count frow}"
proof -
  have count: "count_chunks d fid = chunk_count frow"
    using assms(2,3) by (auto simp add: upload_complete_def split: if_splits)
  then have len: "int (length (stored_indices d fid)) = chunk_count frow"
    by (simp add: count_chunks_def stored_indices_def)
  have "card (set (stored_indices d fid)) = length (stored_indices d fid)"
    using stored_indices_distinct [OF assms(1)] by (rule distinct_card)
  then have "card (set (stored_indices d fid)) = card {0 ..< chunk_count frow}"
    using len by simp
  moreover have "set (stored_indices d fid) \<subseteq> {0 ..< chunk_count frow}"
    using assms(4) by auto
  ultimately show ?thesis by (simp add: card_subset_eq)
qed

text \<open>
  Claim C5 (the code diverges). The chunk upload rejects an index at or above the chunk
  count but not a negative one, and a negative index that is a multiple of the pool size
  selects the first bot (the remainder is \<^verbatim>\<open>-0\<close>). For the one-chunk file of the small
  deployment, the chunk upload with index \<open>-2\<close> succeeds and the completion check, which
  only counts records, succeeds as well, while the stored indices are \<open>[-2]\<close> and not
  the range \<open>[0, 1)\<close>.
\<close>

theorem negative_index_completes:
  "chunk_count ex_file2 = 1
   \<and> status_of (fst (upload_chunk ex_db2 ex_tg ex_atob ''u1'' (ex_chunk_request (- 2)) 300)) = 200
   \<and> status_of (fst (upload_complete
         (snd (upload_chunk ex_db2 ex_tg ex_atob ''u1'' (ex_chunk_request (- 2)) 300))
         ''u1'' (Some ''f2'') 301)) = 200
   \<and> stored_indices (snd (upload_chunk ex_db2 ex_tg ex_atob ''u1'' (ex_chunk_request (- 2)) 300))
        ''f2'' = [- 2]"
proof -
  let ?row = "ex_chunk (- 2) 5 ''b1'' ''-1001'' ''z0'' 21
       \<lparr>chunk_id := ''chunk_f2_-2'', chunk_file_id := ''f2'', chunk_hash := ''c2'',
        chunk_created_at := 300\<rparr>"
  let ?d1 = "ex_db2\<lparr>chunks := chunks ex_db2 @ [?row]\<rparr>"
  have cnt: "chunk_count ex_file2 = 1" by (simp add: ex_file2_def)
  have get: "array_get [ex_bot1, ex_bot2] (js_rem (- 2) 2) = Some ex_bot1"
    by (simp add: array_get_def js_rem_def)
  have str: "toString (- 2) = ''-2''"
    by (simp add: toString_def digits_of.simps digit_char_def)
  have row: "\<lparr> chunk_id = ''chunk_f2_'' @ toString (- 2), chunk_file_id = ''f2'',
                    chunk_index = - 2, chunk_size = 5, chunk_hash = ''c2'',
                    chunk_bot_id = bot_id ex_bot1, telegram_message_id = 21,
                    telegram_file_id = ''z0'', channel_id = the (bot_channel_id ex_bot1),
                    chunk_created_at = 300 \<rparr> = ?row"
    by (simp add: ex_chunk_def ex_bot1_def str)
  have ins: "insert_chunk ex_db2 ?row = Inr ?d1"
    by (simp add: insert_chunk_def ex_db2_def ex_db_def ex_chunk_def toString_digit digit_char_def
        ex_file_def ex_file2_def ex_bot1_def ex_bot2_def)
  have up: "upload_chunk ex_db2 ex_tg ex_atob ''u1'' (ex_chunk_request (- 2)) 300 =
      (Json 200 [(''success'', JBool True), (''chunk_index'', JNum (- 2)),
                 (''message_id'', JNum 21), (''file_id'', JStr ''z0'')], ?d1)"
    by (simp add: ex_upload_first get row ins del: append.simps)
  have found: "select_file ?d1 ''f2'' ''u1'' = Some ex_file2"
    by (simp add: select_file_def ex_db2_def ex_file_def ex_file2_def)
  have stored: "stored_indices ?d1 ''f2'' = [- 2]"
    by (simp add: stored_indices_def ex_db2_def ex_db_def ex_chunk_def)
  have count: "count_chunks ?d1 ''f2'' = 1"
    by (simp add: count_chunks_def ex_db2_def ex_db_def ex_chunk_def)
  have completed: "status_of (fst (upload_complete ?d1 ''u1'' (Some ''f2'') 301)) = 200"
    by (simp add: upload_complete_def found count cnt)
  show ?thesis using cnt stored completed by (simp add: up)
qed



text \<open>At this input the stored indices are not the range \<open>[0, chunk_count)\<close>.\<close>

theorem negative_index_completes_witness:
  "set (stored_indices (snd (upload_chunk ex_db2 ex_tg ex_atob ''u1'' (ex_chunk_request (- 2)) 300))
        ''f2'') \<noteq> {0 ..< chunk_count ex_file2}"
proof -
  have "(- 2 :: int) \<notin> {0 ..< 1}" by simp
  then have "{- 2 :: int} \<noteq> {0 ..< 1}" by blast
  then show ?thesis using negative_index_completes by simp
qed

section \<open>Deduplication at upload initialisation\<close>

lemma find_filter_eq: "find P xs = (case filter P xs of [] \<Rightarrow> None | x # _ \<Rightarrow> Some x)"
  by (induction xs) auto

lemma select_by_hash_live:
  "select_by_hash d uid h = (case live_with_hash d uid h of [] \<Rightarrow> None | x # _ \<Rightarrow> Some x)"
  by (simp add: select_by_hash_def live_with_hash_def find_filter_eq)

lemma upload_init_duplicate:
  assumes "truthy_str (rq_file_name rq)" "truthy_num (rq_file_size rq)"
    and "rq_file_hash rq = Some h" "h \<noteq> []"
    and "select_by_hash d uid h = Some existing"
  shows "upload_init d uid rq new_id now =
     (Json 409 [(''error'', JStr ''File already exists''),
                (''file_id'', JStr (file_id existing)),
                (''duplicate'', JBool True)], d)"
  using assms
  by (auto simp add: upload_init_def truthy_str_def truthy_num_def split: option.splits)

lemma upload_init_success:
  assumes "status_of (fst (upload_init d uid rq new_id now)) = 200"
  shows "\<exists>h row. rq_file_hash rq = Some h \<and> h \<noteq> [] \<and> live_with_hash d uid h = []
           \<and> file_id row = new_id \<and> file_user_id row = uid \<and> file_hash row = h
           \<and> is_deleted row = 0
           \<and> snd (upload_init d uid rq new_id now) = d\<lparr>files := files d @ [row]\<rparr>"
proof -
  from assms obtain fname fsize h where rq: "rq_file_name rq = Some fname"
      "rq_file_size rq = Some fsize" "rq_file_hash rq = Some h" "h \<noteq> []"
    by (auto simp add: upload_init_def truthy_str_def truthy_num_def
        split: option.splits if_splits)
  from assms rq have none: "select_by_hash d uid h = None"
    by (auto simp add: upload_init_def truthy_str_def truthy_num_def
        split: option.splits if_splits)
  then have live: "live_with_hash d uid h = []"
    by (simp add: select_by_hash_live split: list.splits)
  let ?d1 = "snd (upload_init d uid rq new_id now)"
  from assms rq none have "file_id (last (files ?d1)) = new_id"
      "file_user_id (last (files ?d1)) = uid" "file_hash (last (files ?d1)) = h"
      "is_deleted (last (files ?d1)) = 0"
      "?d1 = d\<lparr>files := files d @ [last (files ?d1)]\<rparr>"
    by (auto simp add: upload_init_def truthy_str_def truthy_num_def Let_def insert_file_def
        split: option.splits if_splits sum.splits)
  then show ?thesis using rq live by blast
qed

text \<open>
  Claim C6. When an init call has succeeded for an owner and a content hash, and the
  owner's live file rows with that hash are the same when a second (well-formed) init
  call with the same hash arrives, the second call answers \<^verbatim>\<open>duplicate: true\<close> with the
  file identifier of the first call (status 409) and leaves the file table and the chunk
  table as they were.
\<close>

theorem init_dedup:
  assumes first: "status_of (fst (upload_init d uid rq1 id1 now1)) = 200"
    and state: "d1 = snd (upload_init d uid rq1 id1 now1)"
    and hash: "rq_file_hash rq1 = Some h" "rq_file_hash rq2 = Some h"
    and kept: "live_with_hash d2 uid h = live_with_hash d1 uid h"
    and wf: "truthy_str (rq_file_name rq2)" "truthy_num (rq_file_size rq2)"
  shows "upload_init d2 uid rq2 id2 now2 =
           (Json 409 [(''error'', JStr ''File already exists''),
                      (''file_id'', JStr id1),
                      (''duplicate'', JBool True)], d2)
       \<and> json_field (fst (upload_init d2 uid rq2 id2 now2)) ''duplicate'' = Some (JBool True)
       \<and> json_field (fst (upload_init d2 uid rq2 id2 now2)) ''file_id'' = Some (JStr id1)
       \<and> files (snd (upload_init d2 uid rq2 id2 now2)) = files d2
       \<and> chunks (snd (upload_init d2 uid rq2 id2 now2)) = chunks d2"
proof -
  obtain h' row where h': "rq_file_hash rq1 = Some h'" "h' \<noteq> []" "live_with_hash d uid h' = []"
    and row: "file_id row = id1" "file_user_id row = uid" "file_hash row = h'" "is_deleted row = 0"
    and d1: "snd (upload_init d uid rq1 id1 now1) = d\<lparr>files := files d @ [row]\<rparr>"
    using upload_init_success [OF first] by blast
  have h: "h \<noteq> []" "live_with_hash d uid h = []" and rowh: "file_hash row = h"
    using h' row(3) hash(1) by simp_all
  have "live_with_hash d1 uid h = [row]"
    using h(2) row rowh d1 state by (simp add: live_with_hash_def)
  then have "live_with_hash d2 uid h = [row]" using kept by simp
  then have sel: "select_by_hash d2 uid h = Some row" by (simp add: select_by_hash_live)
  have "upload_init d2 uid rq2 id2 now2 =
           (Json 409 [(''error'', JStr ''File already exists''),
                      (''file_id'', JStr id1),
                      (''duplicate'', JBool True)], d2)"
    using upload_init_duplicate [of rq2 h d2 uid row id2 now2] wf sel hash(2) h(1) row(1)
    by simp
  then show ?thesis by simp
qed


lemma ex_pool: "select_healthy_bots ex_db ''u1'' = [ex_bot1, ex_bot2]"
  by (simp add: select_healthy_bots_def order_by_health_check_desc_def ex_db_def ex_bot1_def
      ex_bot2_def check_ge_def)

lemma ex_init:
  "upload_init ex_db ''u1'' ex_init_request ''f2'' 200 =
     (Json 200 [(''file_id'', JStr ''f2''), (''chunk_count'', JNum 1),
                (''chunk_size'', JNum 20971520),
                (''bot_assignments'',
                   JArr [JObj [(''chunk_index'', JNum 0), (''bot_id'', JStr ''b1'')]])],
      ex_db2)"
proof -
  have none: "select_by_hash ex_db ''u1'' ''h2'' = None"
    by (simp add: select_by_hash_def ex_db_def ex_file_def)
  have ins: "insert_file ex_db ex_file2 = Inr ex_db2"
    by (simp add: insert_file_def ex_db_def ex_db2_def ex_file_def ex_file2_def)
  have cnt: "ceil_div 5 20971520 = 1" by (simp add: ceil_div_def)
  have plan: "bot_assignments [ex_bot1, ex_bot2] 1 =
      [JObj [(''chunk_index'', JNum 0), (''bot_id'', JStr ''b1'')]]"
    by (simp add: bot_assignments_def js_rem_def ex_bot1_def upto.simps)
  have row: "\<lparr> file_id = ''f2'', file_user_id = ''u1'', device_id = None, folder_id = None,
      file_name = ''b.bin'', file_path = ''/b.bin'', file_size = 5, mime_type = None,
      file_hash = ''h2'', chunk_count = 1, is_public = 0, public_title = None,
      public_category = None, is_deleted = 0, created_at = 200, updated_at = 200 \<rparr> = ex_file2"
    by (simp add: ex_file2_def)
  show ?thesis
    by (simp add: upload_init_def ex_init_request_def truthy_str_def truthy_num_def none ex_pool
        cnt or_null_def row ins plan CHUNK_SIZE_def Let_def)
qed

theorem init_dedup_witness:
  "status_of (fst (upload_init ex_db ''u1'' ex_init_request ''f2'' 200)) = 200
   \<and> snd (upload_init ex_db ''u1'' ex_init_request ''f2'' 200) = ex_db2
   \<and> upload_init ex_db2 ''u1'' (ex_init_request\<lparr>rq_file_name := Some ''copy.bin''\<rparr>) ''f3'' 300 =
       (Json 409 [(''error'', JStr ''File already exists''),
                  (''file_id'', JStr ''f2''),
                  (''duplicate'', JBool True)], ex_db2)"
proof -
  have first: "status_of (fst (upload_init ex_db ''u1'' ex_init_request ''f2'' 200)) = 200"
    and state: "ex_db2 = snd (upload_init ex_db ''u1'' ex_init_request ''f2'' 200)"
    by (simp_all add: ex_init)
  have hash: "rq_file_hash ex_init_request = Some ''h2''"
    "rq_file_hash (ex_init_request\<lparr>rq_file_name := Some ''copy.bin''\<rparr>) = Some ''h2''"
    by (simp_all add: ex_init_request_def)
  have wf: "truthy_str (rq_file_name (ex_init_request\<lparr>rq_file_name := Some ''copy.bin''\<rparr>))"
    "truthy_num (rq_file_size (ex_init_request\<lparr>rq_file_name := Some ''copy.bin''\<rparr>))"
    by (simp_all add: ex_init_request_def truthy_str_def truthy_num_def)
  show ?thesis
    using init_dedup [OF first state hash refl wf, of "''f3''" 300] first state by simp
qed



section \<open>Reference repair\<close>

text \<open>
  The repair path of the download handler, for one chunk whose stored file reference
  fails: a fresh reference obtained from the stored message is written to the chunk row
  and fetched once; when the fallback yields nothing, or the second fetch fails, the
  chunk fails.
\<close>

lemma fetch_chunk_repair:
  assumes "trim (cj_bot_token_enc chunk) \<noteq> []"
    and "getBotInfo tg (cj_bot_token_enc chunk) = Inr info"
    and "downloadFile tg (cj_bot_token_enc chunk) (cj_telegram_file_id chunk) = Inl e"
    and "stored_channel_id chunk = Some channel" "channel \<noteq> []"
    and "cj_telegram_message_id chunk \<noteq> 0"
  shows "getFileFromMessage tg (cj_bot_token_enc chunk) channel (cj_telegram_message_id chunk) = Some f
         \<Longrightarrow> truthy_str (tf_file_path f)
         \<Longrightarrow> downloadFile tg (cj_bot_token_enc chunk) (tf_file_id f) = Inr data
         \<Longrightarrow> fetch_chunk tg d fid chunk =
               (Inr data,
                update_telegram_file_id d (tf_file_id f)
                  (''chunk_'' @ fid @ ''_'' @ toString (cj_chunk_index chunk)))"
    and "getFileFromMessage tg (cj_bot_token_enc chunk) channel (cj_telegram_message_id chunk) = Some f
         \<Longrightarrow> truthy_str (tf_file_path f)
         \<Longrightarrow> downloadFile tg (cj_bot_token_enc chunk) (tf_file_id f) = Inl e'
         \<Longrightarrow> fetch_chunk tg d fid chunk =
               (Inl (fallback_failed (cj_chunk_index chunk) e e'),
                update_telegram_file_id d (tf_file_id f)
                  (''chunk_'' @ fid @ ''_'' @ toString (cj_chunk_index chunk)))"
    and "getFileFromMessage tg (cj_bot_token_enc chunk) channel (cj_telegram_message_id chunk) = None
         \<Longrightarrow> \<exists>msg. fetch_chunk tg d fid chunk = (Inl msg, d)"
  using assms
  by (simp_all add: fetch_chunk_def message_fallback_def or_str_def truthy_str_def Let_def)

lemma update_keeps_rows:
  "map chunk_id (chunks (update_telegram_file_id d new_ref cid)) = map chunk_id (chunks d)"
  "length (chunks (update_telegram_file_id d new_ref cid)) = length (chunks d)"
  by (simp_all add: update_telegram_file_id_def comp_def)


lemma ex_stale_download:
  "downloadFile ex_tg_stale tok ''x0'' = Inr [1, 2]"
  "downloadFile ex_tg_stale tok ''y1'' = Inr [3, 4]"
  "downloadFile ex_tg_stale tok ''x2'' = Inr [5]"
  "downloadFile ex_tg_stale tok ''x1'' =
     Inl ''Telegram file not found. The file may have been deleted or the file_id is invalid. File ID: x1...''"
  by (simp_all add: downloadFile_def downloadFile_try_def getFile_def ex_tg_stale_def ex_remote_def
      ex_getFile_def ex_fetch_def getFileUrl_def startsWith_def)

lemma ex_stale_bot_info: "getBotInfo ex_tg_stale tok = Inr (7, ''store_bot'', ''bot'')"
  by (simp add: getBotInfo_def validateBotToken_def ex_tg_stale_def ex_remote_def)

lemma ex_stale_fallback:
  "getFileFromMessage ex_tg_stale tok chan 12 =
     Some \<lparr> tf_file_id = ''y1'', tf_file_unique_id = ''y1'', tf_file_size = None,
            tf_file_path = Some ''documents/y1'' \<rparr>"
  by (simp add: getFileFromMessage_def getFile_def ex_tg_stale_def ex_remote_def ex_forward_def
      ex_getFile_def)

text \<open>
  Claim C7 (the code diverges). The claim asks every read to repair a stale file
  reference once. With the reference of the middle chunk stale and its message still
  forwardable, the stream handler (range and full) answers 404 without calling the
  fallback, although the fallback would yield the fresh reference \<^verbatim>\<open>y1\<close> and its bytes;
  the download handler, on the same input, repairs the reference, returns the whole
  payload and leaves the fresh reference in the chunk row.
\<close>

theorem stale_reference_read:
  "fst (stream ex_db ex_tg_stale no_cache ''u1'' ''f1'' (Some ''bytes=2-3'')) =
     Json 404
       [(''error'', JStr ''File chunk not found in Telegram''),
        (''message'', JStr ''Chunk 1 appears to be missing. The file may need to be re-uploaded.''),
        (''chunk_index'', JNum 1),
        (''suggestion'', JStr ''Try re-uploading this file'')]
   \<and> fst (stream ex_db ex_tg_stale no_cache ''u1'' ''f1'' None) =
     Json 404
       [(''error'', JStr ''File chunk not found in Telegram''),
        (''message'', JStr ''Chunk 1 appears to be missing. The file may need to be re-uploaded.''),
        (''chunk_index'', JNum 1),
        (''suggestion'', JStr ''Try re-uploading this file'')]
   \<and> getFileFromMessage ex_tg_stale ''tokB'' ''-1002'' 12 =
       Some \<lparr> tf_file_id = ''y1'', tf_file_unique_id = ''y1'', tf_file_size = None,
              tf_file_path = Some ''documents/y1'' \<rparr>
   \<and> downloadFile ex_tg_stale ''tokB'' ''y1'' = Inr [3, 4]
   \<and> body_of (fst (download ex_db ex_tg_stale ''u1'' ''f1'')) = Some [1, 2, 3, 4, 5]
   \<and> map telegram_file_id (chunks (snd (download ex_db ex_tg_stale ''u1'' ''f1'')))
       = [''x0'', ''y1'', ''x2'']"
proof -
  have ne: "select_chunks ex_db ''f1'' \<noteq> []" by (simp add: ex_rows)
  have pr: "parseRange ''bytes=2-3'' (file_size ex_file) = (2, 3)"
    by (simp add: parseRange_def match_here_def startsWith_def is_digit_def parseInt_def
        digit_val_def ex_file_def)
  have err: "stream_error (join_bot (ex_chunk 1 2 ''b2'' ''-1002'' ''x1'' 12) ex_bot2)
      ''Telegram file not found. The file may have been deleted or the file_id is invalid. File ID: x1...''
      = Json 404
       [(''error'', JStr ''File chunk not found in Telegram''),
        (''message'', JStr ''Chunk 1 appears to be missing. The file may need to be re-uploaded.''),
        (''chunk_index'', JNum 1),
        (''suggestion'', JStr ''Try re-uploading this file'')]"
    by (simp add: stream_error_def startsWith_def join_bot_def ex_chunk_def toString_digit
        digit_char_def)
  have a: "fst (stream ex_db ex_tg_stale no_cache ''u1'' ''f1'' (Some ''bytes=2-3'')) =
     Json 404
       [(''error'', JStr ''File chunk not found in Telegram''),
        (''message'', JStr ''Chunk 1 appears to be missing. The file may need to be re-uploaded.''),
        (''chunk_index'', JNum 1),
        (''suggestion'', JStr ''Try re-uploading this file'')]"
    using ex_live ne pr err
    by (simp add: stream_def Let_def truthy_str_def no_cache_def ex_file_fields shouldCache_def
        or_null_def ex_rows)
       (simp add: join_bot_def ex_chunk_def ex_bot1_def ex_bot2_def ex_stale_download u8_slice_def)
  have b: "fst (stream ex_db ex_tg_stale no_cache ''u1'' ''f1'' None) =
     Json 404
       [(''error'', JStr ''File chunk not found in Telegram''),
        (''message'', JStr ''Chunk 1 appears to be missing. The file may need to be re-uploaded.''),
        (''chunk_index'', JNum 1),
        (''suggestion'', JStr ''Try re-uploading this file'')]"
    using ex_live ne err
    by (simp add: stream_def Let_def truthy_str_def no_cache_def ex_file_fields shouldCache_def
        or_null_def ex_rows)
       (simp add: join_bot_def ex_chunk_def ex_bot1_def ex_bot2_def ex_stale_download)
  have f0: "fetch_chunk ex_tg_stale ex_db ''f1'' (join_bot (ex_chunk 0 2 ''b1'' ''-1001'' ''x0'' 11) ex_bot1)
      = (Inr [1, 2], ex_db)"
    by (rule fetch_chunk_direct)
       (simp add: directly_fetched_def join_bot_def ex_chunk_def ex_bot1_def ex_stale_download
          ex_stale_bot_info ex_trim)
  let ?d1 = "update_telegram_file_id ex_db ''y1'' ''chunk_f1_1''"
  have f1: "fetch_chunk ex_tg_stale ex_db ''f1'' (join_bot (ex_chunk 1 2 ''b2'' ''-1002'' ''x1'' 12) ex_bot2)
      = (Inr [3, 4], ?d1)"
    using fetch_chunk_repair(1) [of "join_bot (ex_chunk 1 2 ''b2'' ''-1002'' ''x1'' 12) ex_bot2"
        ex_tg_stale "(7, ''store_bot'', ''bot'')" _ "''-1002''"
        "\<lparr> tf_file_id = ''y1'', tf_file_unique_id = ''y1'', tf_file_size = None,
            tf_file_path = Some ''documents/y1'' \<rparr>" "[3, 4]" ex_db "''f1''"]
    by (simp add: join_bot_def ex_chunk_def ex_bot2_def ex_stale_download ex_stale_bot_info
        ex_stale_fallback ex_trim truthy_str_def toString_digit digit_char_def)
  have f2: "fetch_chunk ex_tg_stale ?d1 ''f1'' (join_bot (ex_chunk 2 1 ''b1'' ''-1001'' ''x2'' 13) ex_bot1)
      = (Inr [5], ?d1)"
    by (rule fetch_chunk_direct)
       (simp add: directly_fetched_def join_bot_def ex_chunk_def ex_bot1_def ex_stale_download
          ex_stale_bot_info ex_trim)
  have dl: "download ex_db ex_tg_stale ''u1'' ''f1'' =
      (Binary 200
         [(''Content-Type'', content_type (mime_type ex_file)),
          (''Content-Disposition'',
             ''attachment; filename='' @ [CHR 0x22] @ file_name ex_file @ [CHR 0x22]),
          (''Content-Length'', toString 5)]
         [1, 2, 3, 4, 5], ?d1)"
    using ex_live
    by (simp add: download_def Let_def ex_rows f0 f1 f2 combine_concat)
  have e: "body_of (fst (download ex_db ex_tg_stale ''u1'' ''f1'')) = Some [1, 2, 3, 4, 5]"
    by (simp add: dl)
  have f: "map telegram_file_id (chunks (snd (download ex_db ex_tg_stale ''u1'' ''f1'')))
       = [''x0'', ''y1'', ''x2'']"
    by (subst dl) (simp add: update_telegram_file_id_def ex_db_def ex_chunk_def toString_digit digit_char_def)
  show ?thesis using a b e f ex_stale_fallback ex_stale_download(2) by simp
qed


end
